theory Spec2Isabelle
  imports Complex_Main
begin

section \<open>The ISA atmosphere model of \<^verbatim>\<open>environnement/atmosphere.py\<close>\<close>

text \<open>
  The class \<^verbatim>\<open>AtmosphereISA\<close> has no fields; its four methods are pure functions of
  the altitude. Arithmetic is modelled over the real numbers: \<^verbatim>\<open>**\<close> is \<open>powr\<close> (its
  base is positive wherever a layer is found, see \<open>power_base_pos\<close>), \<^verbatim>\<open>np.exp\<close> is
  \<open>exp\<close>, and rounding is not modelled. An altitude is a number or NaN; NaN is kept
  because it decides which branch of \<^verbatim>\<open>get_level\<close> is taken.
\<close>

datatype pyfloat = Num real | NaN

text \<open>
  \<open>TypeError\<close> and \<open>IndexError\<close> are what Python raises when a list is indexed by
  \<^verbatim>\<open>None\<close> or out of range. \<open>OutOfRangeAltitude\<close> and \<open>InvalidInput\<close> are the error
  conditions named by the specification; no line of the source raises them.
\<close>

datatype error = TypeError | IndexError | OutOfRangeAltitude | InvalidInput

text \<open>The comparison \<^verbatim>\<open>height < bound\<close>: false whenever the left operand is NaN.\<close>

fun lt :: "pyfloat \<Rightarrow> real \<Rightarrow> bool" where
  "lt (Num x) b = (x < b)"
| "lt NaN b = False"

text \<open>Arithmetic on an altitude: NaN propagates.\<close>

fun on_num :: "(real \<Rightarrow> real) \<Rightarrow> pyfloat \<Rightarrow> pyfloat" where
  "on_num f (Num x) = Num (f x)"
| "on_num f NaN = NaN"

text \<open>
  \<^verbatim>\<open>get_level\<close>: an \<^verbatim>\<open>if\<close>/\<^verbatim>\<open>elif\<close> chain with no \<^verbatim>\<open>else\<close>; falling through
  returns Python's \<^verbatim>\<open>None\<close>.
\<close>

definition get_level :: "pyfloat \<Rightarrow> nat option" where
  "get_level height =
     (if lt height 11000 then Some 0
      else if lt height 20000 then Some 1
      else if lt height 32000 then Some 2
      else if lt height 47000 then Some 3
      else if lt height 51000 then Some 4
      else if lt height 71000 then Some 5
      else None)"

text \<open>\<^verbatim>\<open>xs[_level]\<close>: indexing by \<^verbatim>\<open>None\<close> raises TypeError.\<close>

fun subscript :: "'a list \<Rightarrow> nat option \<Rightarrow> error + 'a" where
  "subscript xs None = Inl TypeError"
| "subscript xs (Some i) = (if i < length xs then Inr (xs ! i) else Inl IndexError)"

text \<open>Sequencing of statements that may raise: the first exception ends the call.\<close>

fun and_then :: "error + 'a \<Rightarrow> ('a \<Rightarrow> error + 'b) \<Rightarrow> error + 'b" where
  "and_then (Inl e) f = Inl e"
| "and_then (Inr v) f = f v"

text \<open>
  The constant tables. The source writes them as list literals inside each method; the
  literals for \<^verbatim>\<open>_Tb\<close> and \<^verbatim>\<open>_hb\<close> are the same in all three methods, and the
  literal for \<^verbatim>\<open>_Lb\<close> is the same in \<^verbatim>\<open>get_pressure\<close> and \<^verbatim>\<open>get_density\<close>.
\<close>

definition Tb_table :: "real list" where
  "Tb_table = [288.15, 216.65, 216.65, 228.65, 270.65, 270.65]"

definition a_table :: "real list" where
  "a_table = [-0.0065, 0, 0.001, 0.0028, 0, -0.0028]"

definition hb_table :: "real list" where
  "hb_table = [0, 11000, 20000, 32000, 47000, 51000]"

definition Pb_table :: "real list" where
  "Pb_table = [101325.00, 22632.06, 5474.89, 868.02, 110.91, 66.94]"

definition Lb_table :: "real list" where
  "Lb_table = [0.0065, 0, -0.001, -0.0028, 0, 0.0028]"

definition Db_table :: "real list" where
  "Db_table = [1.225, 0.36391, 0.08803, 0.01322, 0.00143, 0.00086]"

definition get_temperature :: "pyfloat \<Rightarrow> error + pyfloat" where
  "get_temperature height =
     (let level = get_level height in
      and_then (subscript Tb_table level) (\<lambda>Tb.
      and_then (subscript a_table level) (\<lambda>a.
      and_then (subscript hb_table level) (\<lambda>hb.
      Inr (on_num (\<lambda>h. Tb + a * (h - hb)) height)))))"

definition get_pressure :: "pyfloat \<Rightarrow> error + pyfloat" where
  "get_pressure height =
     (let level = get_level height in
      and_then (subscript Pb_table level) (\<lambda>Pb.
      and_then (subscript Tb_table level) (\<lambda>Tb.
      and_then (subscript Lb_table level) (\<lambda>Lb.
      and_then (subscript hb_table level) (\<lambda>hb.
      if Lb = 0
      then Inr (on_num (\<lambda>h. Pb * exp (- 9.81 * 0.028964 * (h - hb) / (8.314 * Tb))) height)
      else Inr (on_num (\<lambda>h. Pb * (1 - Lb * (h - hb) / Tb) powr (9.81 * 0.028964 / (8.314 * Lb)))
                  height))))))"

definition get_density :: "pyfloat \<Rightarrow> error + pyfloat" where
  "get_density height =
     (let level = get_level height in
      and_then (subscript Db_table level) (\<lambda>Db.
      and_then (subscript Tb_table level) (\<lambda>Tb.
      and_then (subscript Lb_table level) (\<lambda>Lb.
      and_then (subscript hb_table level) (\<lambda>hb.
      if Lb = 0
      then Inr (on_num (\<lambda>h. Db * exp (- 9.81 * 0.028964 * (h - hb) / (8.314 * Tb))) height)
      else Inr (on_num (\<lambda>h. Db * (1 - Lb * (h - hb) / Tb) powr (9.81 * 0.028964 / (8.314 * Lb) - 1))
                  height))))))"

subsection \<open>The closed form of one layer\<close>

text \<open>
  The expression each evaluator returns once the level \<open>l\<close> is known, as a function of
  the level: the body of the method after its four table lookups.
\<close>

definition temperature_in :: "nat \<Rightarrow> real \<Rightarrow> real" where
  "temperature_in l h = Tb_table ! l + a_table ! l * (h - hb_table ! l)"

definition pressure_in :: "nat \<Rightarrow> real \<Rightarrow> real" where
  "pressure_in l h =
     (if Lb_table ! l = 0
      then Pb_table ! l * exp (- 9.81 * 0.028964 * (h - hb_table ! l) / (8.314 * Tb_table ! l))
      else Pb_table ! l * (1 - Lb_table ! l * (h - hb_table ! l) / Tb_table ! l)
             powr (9.81 * 0.028964 / (8.314 * Lb_table ! l)))"

definition density_in :: "nat \<Rightarrow> real \<Rightarrow> real" where
  "density_in l h =
     (if Lb_table ! l = 0
      then Db_table ! l * exp (- 9.81 * 0.028964 * (h - hb_table ! l) / (8.314 * Tb_table ! l))
      else Db_table ! l * (1 - Lb_table ! l * (h - hb_table ! l) / Tb_table ! l)
             powr (9.81 * 0.028964 / (8.314 * Lb_table ! l) - 1))"

subsection \<open>The data model of the specification\<close>

text \<open>
  The specification describes one table of six layer records, each with a single signed
  lapse rate: the value of the temperature formula \<open>T = T_b + lapse_rate * (h - h_b)\<close>.
  The breakpoints are the upper bounds of the six partitions.
\<close>

record layer =
  base_altitude :: real
  base_temperature :: real
  lapse_rate :: real
  base_pressure :: real
  base_density :: real

definition layer_table :: "layer list" where
  "layer_table =
     [\<lparr>base_altitude = 0, base_temperature = 288.15, lapse_rate = -0.0065,
        base_pressure = 101325.00, base_density = 1.225\<rparr>,
      \<lparr>base_altitude = 11000, base_temperature = 216.65, lapse_rate = 0,
        base_pressure = 22632.06, base_density = 0.36391\<rparr>,
      \<lparr>base_altitude = 20000, base_temperature = 216.65, lapse_rate = 0.001,
        base_pressure = 5474.89, base_density = 0.08803\<rparr>,
      \<lparr>base_altitude = 32000, base_temperature = 228.65, lapse_rate = 0.0028,
        base_pressure = 868.02, base_density = 0.01322\<rparr>,
      \<lparr>base_altitude = 47000, base_temperature = 270.65, lapse_rate = 0,
        base_pressure = 110.91, base_density = 0.00143\<rparr>,
      \<lparr>base_altitude = 51000, base_temperature = 270.65, lapse_rate = -0.0028,
        base_pressure = 66.94, base_density = 0.00086\<rparr>]"

definition breakpoints :: "real list" where
  "breakpoints = [11000, 20000, 32000, 47000, 51000, 71000]"

text \<open>The polytropic formulas in the specification's words, for a lapse rate \<open>L\<close>.\<close>

definition polytropic_pressure :: "layer \<Rightarrow> real \<Rightarrow> real \<Rightarrow> real" where
  "polytropic_pressure ly L h =
     base_pressure ly * (1 - L * (h - base_altitude ly) / base_temperature ly)
       powr (9.81 * 0.028964 / (8.314 * L))"

definition polytropic_density :: "layer \<Rightarrow> real \<Rightarrow> real \<Rightarrow> real" where
  "polytropic_density ly L h =
     base_density ly * (1 - L * (h - base_altitude ly) / base_temperature ly)
       powr (9.81 * 0.028964 / (8.314 * L) - 1)"

text \<open>A call returned a number within \<open>tol\<close> of \<open>v\<close>.\<close>

definition returns_within :: "error + pyfloat \<Rightarrow> real \<Rightarrow> real \<Rightarrow> bool" where
  "returns_within r v tol =
     (case r of Inr (Num x) \<Rightarrow> \<bar>x - v\<bar> \<le> tol | Inr NaN \<Rightarrow> False | Inl e \<Rightarrow> False)"

subsection \<open>Auxiliary definitions\<close>

text \<open>
  The Taylor polynomial of \<open>exp\<close> in Horner form, \<open>exp_horner n 1 x\<close> being the sum of
  \<open>x ^ m / m!\<close> for \<open>m \<le> n\<close>; it is used to bound the closed forms numerically.
\<close>

fun exp_horner :: "nat \<Rightarrow> nat \<Rightarrow> real \<Rightarrow> real" where
  "exp_horner 0 k x = 1"
| "exp_horner (Suc n) k x = 1 + x / real k * exp_horner n (Suc k) x"

text \<open>
  For each layer, a width in metres around its upper boundary: inside it the value just
  above the boundary can exceed the value just below. One table for the pressure and one
  for the density; the last layer has no upper boundary inside the domain.
\<close>

definition pressure_window :: "real list" where
  "pressure_window = [4, 4, 5, 7, 2, 0]"

definition density_window :: "real list" where
  "density_window = [5, 4, 3, 24, 0, 0]"

section \<open>Basic facts\<close>

lemma lt6: "(j::nat) < 6 \<longleftrightarrow> j = 0 \<or> j = 1 \<or> j = 2 \<or> j = 3 \<or> j = 4 \<or> j = 5"
  by arith

lemma get_level_cases:
  "get_level (Num h) =
     (if h < 11000 then Some 0 else if h < 20000 then Some 1 else if h < 32000 then Some 2
      else if h < 47000 then Some 3 else if h < 51000 then Some 4
      else if h < 71000 then Some 5 else None)"
  by (simp add: get_level_def)

lemma get_level_NaN: "get_level NaN = None"
  by (simp add: get_level_def)

lemma get_level_range: "get_level height = Some l \<Longrightarrow> l < 6"
  by (auto simp: get_level_def split: if_splits)

lemma get_level_Num: "get_level height = Some l \<Longrightarrow> \<exists>h. height = Num h"
  by (cases height) (simp_all add: get_level_NaN)

lemma table_lengths:
  "length Tb_table = 6" "length a_table = 6" "length hb_table = 6"
  "length Pb_table = 6" "length Lb_table = 6" "length Db_table = 6"
  by (simp_all add: Tb_table_def a_table_def hb_table_def Pb_table_def Lb_table_def Db_table_def)

text \<open>With a level found, each evaluator returns the closed form of that level.\<close>

lemma get_temperature_in:
  "get_level (Num h) = Some l \<Longrightarrow> get_temperature (Num h) = Inr (Num (temperature_in l h))"
  by (frule get_level_range) (simp add: get_temperature_def temperature_in_def table_lengths)

lemma get_pressure_in:
  "get_level (Num h) = Some l \<Longrightarrow> get_pressure (Num h) = Inr (Num (pressure_in l h))"
  by (frule get_level_range) (simp add: get_pressure_def pressure_in_def table_lengths)

lemma get_density_in:
  "get_level (Num h) = Some l \<Longrightarrow> get_density (Num h) = Inr (Num (density_in l h))"
  by (frule get_level_range) (simp add: get_density_def density_in_def table_lengths)

text \<open>With no level, the first table lookup raises TypeError.\<close>

lemma no_level_raises:
  "get_level height = None \<Longrightarrow>
     get_temperature height = Inl TypeError \<and> get_pressure height = Inl TypeError
     \<and> get_density height = Inl TypeError"
  by (simp add: get_temperature_def get_pressure_def get_density_def)

lemma powr_mismatch:
  fixes x c :: real
  assumes "0 < x" "x < 1" "0 < c"
  shows "(1 - x) powr c \<noteq> (1 + x) powr (- c)"
proof
  assume eq: "(1 - x) powr c = (1 + x) powr (- c)"
  have "(1 - x) powr c * (1 + x) powr c = 1"
    using assms by (simp add: eq powr_minus field_simps)
  then have "((1 - x) * (1 + x)) powr c = 1"
    using assms by (simp add: powr_mult)
  moreover have "((1 - x) * (1 + x)) powr c < 1 powr c"
  proof (rule powr_less_mono2)
    show "0 < c" by fact
    show "0 \<le> (1 - x) * (1 + x)" using assms by simp
    have "(1 - x) * (1 + x) = 1 - x * x" by (simp add: algebra_simps)
    also have "\<dots> < 1" using assms by simp
    finally show "(1 - x) * (1 + x) < 1" .
  qed
  ultimately show False by simp
qed

section \<open>Bounds on powers and exponentials\<close>

text \<open>
  Bounds on a power with a rational exponent, by comparing integer powers:
  \<open>r < b powr (p / q)\<close> follows from \<open>r ^ q < b ^ p\<close>.
\<close>

lemma powr_rat_gt:
  fixes b r :: real
  assumes "0 < b" "0 < r" "0 < q" "r ^ q < b ^ p"
  shows "r < b powr (real p / real q)"
proof -
  have "r = (r powr real q) powr (1 / real q)"
    using assms by (simp add: powr_powr)
  also have "\<dots> = (r ^ q) powr (1 / real q)"
    using assms by (simp add: powr_realpow)
  also have "\<dots> < (b ^ p) powr (1 / real q)"
    using assms by (intro powr_less_mono2) simp_all
  also have "\<dots> = (b powr real p) powr (1 / real q)"
    using assms by (simp add: powr_realpow)
  also have "\<dots> = b powr (real p / real q)"
    by (simp add: powr_powr)
  finally show ?thesis .
qed

lemma powr_rat_lt:
  fixes b r :: real
  assumes "0 < b" "0 < r" "0 < q" "b ^ p < r ^ q"
  shows "b powr (real p / real q) < r"
proof -
  have "b powr (real p / real q) = (b powr real p) powr (1 / real q)"
    by (simp add: powr_powr)
  also have "\<dots> = (b ^ p) powr (1 / real q)"
    using assms by (simp add: powr_realpow)
  also have "\<dots> < (r ^ q) powr (1 / real q)"
    using assms by (intro powr_less_mono2) simp_all
  also have "\<dots> = (r powr real q) powr (1 / real q)"
    using assms by (simp add: powr_realpow)
  also have "\<dots> = r"
    using assms by (simp add: powr_powr)
  finally show ?thesis .
qed

text \<open>
  Bounds on \<open>b powr e\<close> for an exponent \<open>e\<close> between \<open>n + pa / qa\<close> and
  \<open>n + pb / qb\<close>, from comparisons of integer powers. The first is for a base below
  1 and a positive exponent, the second for a base above 1 and a negative exponent.
\<close>

lemma powr_bracket_small:
  fixes b e lo hi ra rb :: real
  assumes "0 < b" "b \<le> 1" "0 < ra" "0 < rb" "0 < qa" "0 < qb"
    and "real n + real pa / real qa \<le> e" "b ^ pa < rb ^ qa"
    and "e \<le> real n + real pb / real qb" "ra ^ qb < b ^ pb"
    and "lo \<le> b ^ n * ra" "b ^ n * rb \<le> hi"
  shows "lo < b powr e \<and> b powr e < hi"
proof -
  define f where "f = e - real n"
  have "b powr e = b powr (real n + f)" by (simp add: f_def)
  also have "\<dots> = b ^ n * b powr f"
    using assms(1) by (simp add: powr_add powr_realpow)
  finally have split: "b powr e = b ^ n * b powr f" .
  have bn: "0 < b ^ n" using assms(1) by simp
  have "b powr f \<le> b powr (real pa / real qa)"
    using assms(7,1,2) by (intro powr_mono') (simp_all add: f_def)
  also have "\<dots> < rb"
    using assms(1,4,5,8) by (rule powr_rat_lt)
  finally have "b ^ n * b powr f < b ^ n * rb"
    using bn by simp
  with assms(12) have up: "b powr e < hi" by (simp add: split)
  have "ra < b powr (real pb / real qb)"
    using assms(1,3,6,10) by (rule powr_rat_gt)
  also have "\<dots> \<le> b powr f"
    using assms(9,1,2) by (intro powr_mono') (simp_all add: f_def)
  finally have "b ^ n * ra < b ^ n * b powr f"
    using bn by simp
  with assms(11) have "lo < b powr e" by (simp add: split)
  with up show ?thesis by simp
qed

lemma powr_bracket_large:
  fixes b e lo hi ra rb :: real
  assumes "1 < b" "0 < ra" "0 < rb" "0 < lo" "0 < hi" "0 < qa" "0 < qb"
    and "real n + real pa / real qa \<le> - e" "ra ^ qa < b ^ pa"
    and "- e \<le> real n + real pb / real qb" "b ^ pb < rb ^ qb"
    and "inverse hi \<le> b ^ n * ra" "b ^ n * rb \<le> inverse lo"
  shows "lo < b powr e \<and> b powr e < hi"
proof -
  define f where "f = - e - real n"
  have b0: "0 < b" using assms(1) by simp
  have "b powr (- e) = b powr (real n + f)" by (simp add: f_def)
  also have "\<dots> = b ^ n * b powr f"
    using b0 by (simp add: powr_add powr_realpow)
  finally have split: "b powr (- e) = b ^ n * b powr f" .
  have bn: "0 < b ^ n" using b0 by simp
  have "ra < b powr (real pa / real qa)"
    using b0 assms(2,6,9) by (rule powr_rat_gt)
  also have "\<dots> \<le> b powr f"
    using assms(8,1) by (intro powr_mono) (simp_all add: f_def)
  finally have "b ^ n * ra < b ^ n * b powr f"
    using bn by simp
  with assms(12) have "inverse hi < b powr (- e)" by (simp add: split)
  then have "inverse hi < inverse (b powr e)" by (simp add: powr_minus)
  then have up: "b powr e < hi"
    using assms(5) by (rule inverse_less_imp_less)
  have "b powr f \<le> b powr (real pb / real qb)"
    using assms(10,1) by (intro powr_mono) (simp_all add: f_def)
  also have "\<dots> < rb"
    using b0 assms(3,7,11) by (rule powr_rat_lt)
  finally have "b ^ n * b powr f < b ^ n * rb"
    using bn by simp
  with assms(13) have "b powr (- e) < inverse lo" by (simp add: split)
  then have "inverse (b powr e) < inverse lo" by (simp add: powr_minus)
  then have "lo < b powr e"
    using b0 by (intro inverse_less_imp_less [of "b powr e" lo]) simp_all
  with up show ?thesis by simp
qed

text \<open>
  Bounds on \<open>exp\<close> from its Taylor polynomial of degree 9 with the Lagrange remainder.
\<close>

lemma exp_taylor10:
  fixes x :: real
  assumes "0 \<le> x" "x \<le> 2"
  shows "(\<Sum>m<10. x ^ m / fact m) \<le> exp x"
    and "exp x \<le> (\<Sum>m<10. x ^ m / fact m) + 9 * x ^ 10 / fact 10"
proof -
  obtain t where t: "\<bar>t\<bar> \<le> \<bar>x\<bar>"
    and eq: "exp x = (\<Sum>m<10. x ^ m / fact m) + exp t / fact 10 * x ^ 10"
    using Maclaurin_exp_le [of x 10] by blast
  have "0 \<le> exp t / fact 10 * x ^ 10" using assms by simp
  with eq show "(\<Sum>m<10. x ^ m / fact m) \<le> exp x" by linarith
  have "exp t \<le> exp 2" using t assms by simp
  also have "exp (2::real) = exp 1 * exp 1" by (simp flip: exp_add)
  also have "\<dots> \<le> 3 * 3" by (intro mult_mono exp_le) simp_all
  finally have "exp t \<le> 9" by simp
  then have "exp t / fact 10 * x ^ 10 \<le> 9 / fact 10 * x ^ 10"
    using assms by (intro mult_right_mono divide_right_mono) simp_all
  with eq show "exp x \<le> (\<Sum>m<10. x ^ m / fact m) + 9 * x ^ 10 / fact 10" by simp
qed

lemma exp_bracket:
  fixes e lo hi L U :: real
  assumes "0 \<le> lo" "lo \<le> e" "e \<le> hi" "hi \<le> 2"
    and "L \<le> (\<Sum>m<10. lo ^ m / fact m)"
    and "(\<Sum>m<10. hi ^ m / fact m) + 9 * hi ^ 10 / fact 10 \<le> U"
    and "0 < L"
  shows "inverse U \<le> exp (- e) \<and> exp (- e) \<le> inverse L"
proof -
  have "L \<le> exp lo" using assms(5) exp_taylor10(1) [of lo] assms(1-4) by linarith
  also have "\<dots> \<le> exp e" using assms(2) by simp
  finally have L: "L \<le> exp e" .
  have "exp e \<le> exp hi" using assms(3) by simp
  also have "\<dots> \<le> U" using assms(6) exp_taylor10(2) [of hi] assms(1-4) by linarith
  finally have U: "exp e \<le> U" .
  have "inverse U \<le> inverse (exp e)" using U by (intro le_imp_inverse_le) simp_all
  moreover have "inverse (exp e) \<le> inverse L" using L assms(7) by (intro le_imp_inverse_le)
  ultimately show ?thesis by (simp add: exp_minus)
qed

text \<open>
  The Horner form is the Taylor polynomial, so it bounds \<open>exp\<close> from below, and from
  above with the Lagrange remainder (for arguments in \<open>[0, 3]\<close>).
\<close>

lemma exp_horner_sum:
  "exp_horner n (Suc k) x = (\<Sum>m\<le>n. x ^ m * fact k / fact (k + m))"
proof (induction n arbitrary: k)
  case 0
  then show ?case by simp
next
  case (Suc n)
  have step: "x / real (Suc k) * (x ^ m * fact (Suc k) / fact (Suc k + m))
                = x ^ Suc m * fact k / fact (k + Suc m)" for m
  proof -
    have "fact (Suc k) = real (Suc k) * fact k" by simp
    then have "x / real (Suc k) * (x ^ m * fact (Suc k) / fact (Suc k + m))
                 = x * x ^ m * fact k / fact (Suc k + m)"
      by (simp del: fact_Suc of_nat_Suc)
    then show ?thesis by (simp del: fact_Suc of_nat_Suc)
  qed
  have "exp_horner (Suc n) (Suc k) x
          = 1 + x / real (Suc k) * (\<Sum>m\<le>n. x ^ m * fact (Suc k) / fact (Suc k + m))"
    by (simp only: exp_horner.simps Suc.IH)
  also have "\<dots> = 1 + (\<Sum>m\<le>n. x ^ Suc m * fact k / fact (k + Suc m))"
    by (simp only: sum_distrib_left step)
  also have "\<dots> = (\<Sum>m\<le>Suc n. x ^ m * fact k / fact (k + m))"
    by (subst sum.atMost_Suc_shift) simp
  finally show ?case .
qed

lemma exp_horner_taylor: "exp_horner n 1 x = (\<Sum>m<Suc n. x ^ m / fact m)"
  using exp_horner_sum [of n 0 x] by (simp add: lessThan_Suc_atMost)

lemma exp_poly_bounds:
  fixes x :: real
  assumes "0 \<le> x" "x \<le> 3"
  shows "(\<Sum>m<n. x ^ m / fact m) \<le> exp x"
    and "exp x \<le> (\<Sum>m<n. x ^ m / fact m) + 27 * x ^ n / fact n"
proof -
  obtain t where t: "\<bar>t\<bar> \<le> \<bar>x\<bar>"
    and eq: "exp x = (\<Sum>m<n. x ^ m / fact m) + exp t / fact n * x ^ n"
    using Maclaurin_exp_le [of x n] by blast
  have "0 \<le> exp t / fact n * x ^ n" using assms by simp
  with eq show "(\<Sum>m<n. x ^ m / fact m) \<le> exp x" by linarith
  have "exp t \<le> exp 3" using t assms by simp
  also have "exp (3::real) = exp 1 * exp 1 * exp 1" by (simp flip: exp_add)
  also have "\<dots> \<le> 3 * 3 * 3" by (intro mult_mono exp_le) simp_all
  finally have "exp t \<le> 27" by simp
  then have "exp t / fact n * x ^ n \<le> 27 / fact n * x ^ n"
    using assms by (intro mult_right_mono divide_right_mono) simp_all
  with eq show "exp x \<le> (\<Sum>m<n. x ^ m / fact m) + 27 * x ^ n / fact n" by simp
qed

lemma exp_ge_horner:
  assumes "0 \<le> x" "x \<le> 3" "L \<le> exp_horner n 1 x"
  shows "L \<le> exp x"
proof -
  have "exp_horner n 1 x \<le> exp x"
    unfolding exp_horner_taylor using assms(1,2) by (rule exp_poly_bounds(1))
  with assms(3) show ?thesis by simp
qed

lemma exp_le_horner:
  assumes "0 \<le> x" "x \<le> xc" "xc \<le> 3" "27 * xc ^ Suc n / fact (Suc n) \<le> \<rho>"
    and "exp_horner n 1 x + \<rho> \<le> U"
  shows "exp x \<le> U"
proof -
  have x3: "x \<le> 3" using assms(2,3) by simp
  have "x ^ Suc n \<le> xc ^ Suc n"
    using assms(2,1) by (rule power_mono)
  then have "27 * x ^ Suc n / fact (Suc n) \<le> 27 * xc ^ Suc n / fact (Suc n)"
    by (intro divide_right_mono mult_left_mono) simp_all
  with assms(4) have r: "27 * x ^ Suc n / fact (Suc n) \<le> \<rho>" by simp
  have "exp x \<le> exp_horner n 1 x + 27 * x ^ Suc n / fact (Suc n)"
    unfolding exp_horner_taylor using assms(1) x3 by (rule exp_poly_bounds(2))
  with r assms(5) show ?thesis by simp
qed

text \<open>Bounds on \<open>B * exp (- y)\<close> from the Horner form.\<close>

lemma scaled_exp_lower:
  assumes "0 \<le> B" "y \<le> hi" "0 \<le> hi" "hi \<le> xc" "xc \<le> 3"
    and "27 * xc ^ Suc n / fact (Suc n) \<le> \<rho>" "exp_horner n 1 hi + \<rho> \<le> U" "V * U \<le> B"
  shows "V \<le> B * exp (- y)"
proof -
  have "exp y \<le> exp hi" using assms(2) by simp
  also have "\<dots> \<le> U" using assms(3-7) by (rule exp_le_horner)
  finally have U: "exp y \<le> U" .
  have "V * exp y \<le> V * U \<or> V \<le> 0"
    using U by (cases "0 \<le> V") (simp_all add: mult_left_mono)
  then have "V * exp y \<le> B"
  proof
    assume "V * exp y \<le> V * U" with assms(8) show ?thesis by simp
  next
    assume "V \<le> 0"
    then have "V * exp y \<le> 0" by (simp add: mult_nonpos_nonneg)
    with assms(1) show ?thesis by simp
  qed
  then show ?thesis by (simp add: exp_minus field_simps)
qed

lemma scaled_exp_upper:
  assumes "0 \<le> B" "lo \<le> y" "0 \<le> lo" "lo \<le> 3" "0 < L" "L \<le> exp_horner n 1 lo"
    and "B \<le> V * L"
  shows "B * exp (- y) \<le> V"
proof -
  have "L \<le> exp lo" using assms(3,4,6) by (rule exp_ge_horner)
  also have "\<dots> \<le> exp y" using assms(2) by simp
  finally have L: "L \<le> exp y" .
  have V: "0 \<le> V" using assms(1,5,7)
    by (metis less_le_not_le mult_less_0_iff not_le order_trans)
  have "V * L \<le> V * exp y" using L V by (rule mult_left_mono)
  with assms(7) have "B \<le> V * exp y" by simp
  then show ?thesis by (simp add: exp_minus field_simps)
qed

text \<open>Bounds on \<open>B * \<beta> powr (- t)\<close> from bounds on \<open>ln \<beta>\<close>.\<close>

lemma scaled_powr_lower:
  assumes "0 \<le> B" "0 < \<beta>" "0 \<le> t" "0 \<le> lnu" "lnu \<le> 3" "\<beta> \<le> exp_horner n 1 lnu"
    and "t * lnu \<le> hi" "0 \<le> hi" "hi \<le> xc" "xc \<le> 3"
    and "27 * xc ^ Suc n / fact (Suc n) \<le> \<rho>" "exp_horner n 1 hi + \<rho> \<le> U" "V * U \<le> B"
  shows "V \<le> B * \<beta> powr (- t)"
proof -
  have "\<beta> \<le> exp lnu" using assms(4,5,6) by (rule exp_ge_horner)
  then have "ln \<beta> \<le> ln (exp lnu)" using assms(2) by (rule ln_mono)
  then have "ln \<beta> \<le> lnu" by simp
  then have "t * ln \<beta> \<le> t * lnu" using assms(3) by (rule mult_left_mono)
  with assms(7) have y: "t * ln \<beta> \<le> hi" by simp
  have "V \<le> B * exp (- (t * ln \<beta>))"
    using assms(1) y assms(8-13) by (rule scaled_exp_lower)
  then show ?thesis using assms(2) by (simp add: powr_def)
qed

lemma scaled_powr_upper:
  assumes "0 \<le> B" "0 \<le> t" "0 \<le> lnl" "lnl \<le> xl" "xl \<le> 3"
    and "27 * xl ^ Suc n / fact (Suc n) \<le> \<rho>" "exp_horner n 1 lnl + \<rho> \<le> \<beta>"
    and "lo \<le> t * lnl" "0 \<le> lo" "lo \<le> 3" "0 < L" "L \<le> exp_horner n 1 lo" "B \<le> V * L"
  shows "B * \<beta> powr (- t) \<le> V"
proof -
  have e: "exp lnl \<le> \<beta>" using assms(3-7) by (rule exp_le_horner)
  then have b: "0 < \<beta>" by (rule less_le_trans [OF exp_gt_zero])
  from e b have "lnl \<le> ln \<beta>" by (simp add: ln_ge_iff)
  then have "t * lnl \<le> t * ln \<beta>" using assms(2) by (rule mult_left_mono)
  with assms(8) have y: "lo \<le> t * ln \<beta>" by simp
  have "B * exp (- (t * ln \<beta>)) \<le> V"
    using assms(1) y assms(9-13) by (rule scaled_exp_upper)
  then show ?thesis using b by (simp add: powr_def)
qed

lemma powr_flip: "0 < b \<Longrightarrow> b powr e = inverse b powr (- e)" for b e :: real
  by (simp add: powr_def ln_inverse)

text \<open>
  A lower bound on the relative decrease: \<open>exp\<close> and \<open>powr\<close> fall at least linearly.
\<close>

lemma exp_rate:
  fixes x1 x2 r :: real
  assumes "0 \<le> B" "r \<le> x1 - x2"
  shows "B * exp x2 * (1 + r) \<le> B * exp x1"
proof -
  have "1 + r \<le> 1 + (x1 - x2)" using assms(2) by simp
  also have "\<dots> \<le> exp (x1 - x2)" by (rule exp_ge_add_one_self)
  finally have "exp x2 * (1 + r) \<le> exp x2 * exp (x1 - x2)"
    by (intro mult_left_mono) simp_all
  also have "\<dots> = exp x1" by (simp flip: exp_add)
  finally have "B * (exp x2 * (1 + r)) \<le> B * exp x1"
    using assms(1) by (rule mult_left_mono)
  then show ?thesis by (simp add: mult.assoc)
qed

lemma powr_rate_down:
  fixes b1 b2 c r B :: real
  assumes "0 \<le> B" "0 < c" "0 < b2" "b2 \<le> b1" "b1 \<le> 1" "r \<le> c * (b1 - b2)"
  shows "B * b2 powr c * (1 + r) \<le> B * b1 powr c"
proof -
  have b1: "0 < b1" using assms(3,4) by simp
  have "ln (b2 / b1) \<le> b2 / b1 - 1"
    using assms(3) b1 by (intro ln_le_minus_one) simp
  then have "1 - b2 / b1 \<le> ln b1 - ln b2"
    using assms(3) b1 by (simp add: ln_divide_pos)
  moreover have "b1 - b2 \<le> 1 - b2 / b1"
  proof -
    have "(b1 - b2) * b1 \<le> (b1 - b2) * 1"
      using assms(4,5) by (intro mult_left_mono) simp_all
    then show ?thesis using b1 by (simp add: field_simps)
  qed
  ultimately have "b1 - b2 \<le> ln b1 - ln b2" by simp
  then have "c * (b1 - b2) \<le> c * (ln b1 - ln b2)"
    using assms(2) by (intro mult_left_mono) simp_all
  with assms(6) have "r \<le> c * ln b1 - c * ln b2" by (simp add: algebra_simps)
  with assms(1) have "B * exp (c * ln b2) * (1 + r) \<le> B * exp (c * ln b1)"
    by (rule exp_rate)
  then show ?thesis using assms(3) b1 by (simp add: powr_def)
qed

lemma powr_rate_up:
  fixes b1 b2 t r B bmax :: real
  assumes "0 \<le> B" "0 \<le> t" "0 < b1" "b1 \<le> b2" "b2 \<le> bmax" "r * bmax \<le> t * (b2 - b1)"
  shows "B * b2 powr (- t) * (1 + r) \<le> B * b1 powr (- t)"
proof -
  have b2: "0 < b2" using assms(3,4) by simp
  have bm: "0 < bmax" using b2 assms(5) by simp
  have "ln (b1 / b2) \<le> b1 / b2 - 1"
    using assms(3) b2 by (intro ln_le_minus_one) simp
  then have "1 - b1 / b2 \<le> ln b2 - ln b1"
    using assms(3) b2 by (simp add: ln_divide_pos)
  moreover have "(b2 - b1) / bmax \<le> 1 - b1 / b2"
  proof -
    have "(b2 - b1) / bmax \<le> (b2 - b1) / b2"
      using assms(4,5) b2 by (intro divide_left_mono) simp_all
    also have "\<dots> = 1 - b1 / b2" using b2 by (simp add: field_simps)
    finally show ?thesis .
  qed
  ultimately have "(b2 - b1) / bmax \<le> ln b2 - ln b1" by simp
  then have "t * ((b2 - b1) / bmax) \<le> t * (ln b2 - ln b1)"
    using assms(2) by (rule mult_left_mono)
  moreover have "r \<le> t * ((b2 - b1) / bmax)"
    using assms(6) bm by (simp add: field_simps)
  ultimately have "r \<le> - t * ln b1 - (- t * ln b2)" by (simp add: algebra_simps)
  with assms(1) have "B * exp (- t * ln b2) * (1 + r) \<le> B * exp (- t * ln b1)"
    by (rule exp_rate)
  then show ?thesis using assms(3) b2 by (simp add: powr_def)
qed

section \<open>Layer classification\<close>

text \<open>
  Claim C3. For every altitude \<open>h < 71000\<close>, \<open>get_level\<close> returns an index \<open>i\<close> in
  \<open>0..5\<close>: the first index whose breakpoint in \<open>[11000, 20000, 32000, 47000, 51000,
  71000]\<close> exceeds \<open>h\<close>, and the only index of the partition that contains \<open>h\<close>
  (below its breakpoint, at or above every earlier one). For \<open>h\<close> in \<open>[0, 71000)\<close> the
  altitude is at or above the base altitude of layer \<open>i\<close>, \<open>i\<close> is the only index whose
  interval \<open>[base, breakpoint)\<close> contains \<open>h\<close>, and it is the last layer whose base
  altitude does not exceed \<open>h\<close>. Every \<open>h < 0\<close> is classified as index 0.
\<close>

theorem get_level_partition:
  assumes "h < 71000"
  shows "\<exists>i. get_level (Num h) = Some i \<and> i < 6 \<and> h < breakpoints ! i
           \<and> (\<forall>j<i. breakpoints ! j \<le> h)
           \<and> (\<forall>j<6. h < breakpoints ! j \<and> (\<forall>m<j. breakpoints ! m \<le> h) \<longrightarrow> j = i)
           \<and> (0 \<le> h \<longrightarrow> base_altitude (layer_table ! i) \<le> h
                 \<and> (\<forall>j<6. base_altitude (layer_table ! j) \<le> h \<and> h < breakpoints ! j
                           \<longrightarrow> j = i)
                 \<and> (\<forall>j<6. base_altitude (layer_table ! j) \<le> h \<longrightarrow> j \<le> i))
           \<and> (h < 0 \<longrightarrow> i = 0)"
  using assms
  by (auto simp: get_level_cases breakpoints_def layer_table_def lt6 less_Suc_eq numeral_eq_Suc)

theorem get_level_partition_witness:
  "(33000::real) < 71000 \<and> get_level (Num 33000) = Some 3
   \<and> (-5::real) < 71000 \<and> get_level (Num (-5)) = Some 0"
  using get_level_partition [of 33000] get_level_partition [of "-5"]
  by (simp add: get_level_cases)

section \<open>Altitudes without a layer\<close>

text \<open>
  Claim C10. For every altitude \<open>h \<ge> 71000\<close>, and for NaN, \<open>get_level\<close> returns no
  index (\<open>None\<close>), and each of \<open>get_temperature\<close>, \<open>get_pressure\<close> and \<open>get_density\<close>
  fails with TypeError when it indexes its first table: none returns a number, and none
  raises \<open>OutOfRangeAltitude\<close> or \<open>InvalidInput\<close>.
\<close>

theorem no_layer_type_error:
  assumes "height = NaN \<or> (\<exists>h. height = Num h \<and> 71000 \<le> h)"
  shows "get_level height = None
     \<and> get_temperature height = Inl TypeError
     \<and> get_pressure height = Inl TypeError
     \<and> get_density height = Inl TypeError
     \<and> (\<forall>r \<in> {get_temperature height, get_pressure height, get_density height}.
           (\<forall>v. r \<noteq> Inr v) \<and> r \<noteq> Inl OutOfRangeAltitude \<and> r \<noteq> Inl InvalidInput)"
proof -
  from assms have "get_level height = None"
    by (auto simp: get_level_cases get_level_NaN)
  then show ?thesis using no_level_raises [of height] by simp
qed

theorem no_layer_type_error_witness:
  "get_level (Num 80000) = None \<and> get_pressure (Num 80000) = Inl TypeError
   \<and> get_level NaN = None \<and> get_density NaN = Inl TypeError"
  using no_layer_type_error [of "Num 80000"] no_layer_type_error [of NaN]
  by simp

text \<open>
  Claim C2, as stated: for every altitude \<open>h \<ge> 71000\<close> each evaluator signals the
  dedicated error \<open>OutOfRangeAltitude\<close>. The source has no such error: at 71000 and at
  80000 the error raised is TypeError.
\<close>

theorem out_of_range_error_counterexample:
  "get_temperature (Num 71000) = Inl TypeError
   \<and> get_temperature (Num 71000) \<noteq> Inl OutOfRangeAltitude
   \<and> get_pressure (Num 80000) = Inl TypeError
   \<and> get_pressure (Num 80000) \<noteq> Inl OutOfRangeAltitude"
  by (simp add: get_temperature_def get_pressure_def get_level_cases)

text \<open>
  Claim C2, amended: for every altitude \<open>h \<ge> 71000\<close> each of \<open>get_temperature\<close>,
  \<open>get_pressure\<close> and \<open>get_density\<close> fails rather than returning a number; the error is
  the TypeError of indexing a table with \<open>None\<close>.
\<close>

theorem above_range_fails:
  assumes "71000 \<le> h"
  shows "get_temperature (Num h) = Inl TypeError
     \<and> get_pressure (Num h) = Inl TypeError
     \<and> get_density (Num h) = Inl TypeError"
proof (rule no_level_raises)
  show "get_level (Num h) = None" using assms by (simp add: get_level_cases)
qed

theorem above_range_fails_witness:
  "(71000::real) \<le> 71000 \<and> get_temperature (Num 71000) = Inl TypeError
   \<and> get_pressure (Num 71000) = Inl TypeError \<and> get_density (Num 71000) = Inl TypeError"
  using above_range_fails [of 71000] by simp

section \<open>Temperature\<close>

text \<open>
  Claim C5. For every altitude \<open>h\<close> in \<open>[0, 71000)\<close>, \<open>get_temperature h\<close> is
  \<open>T_b + lapse_rate * (h - h_b)\<close> with the base temperature, lapse rate and base altitude
  of the layer that \<open>get_level h\<close> returns (over the reals, so without rounding).
\<close>

theorem get_temperature_linear:
  assumes "0 \<le> h" "h < 71000"
  shows "\<exists>i. get_level (Num h) = Some i \<and> i < length layer_table
    \<and> get_temperature (Num h) = Inr (Num (base_temperature (layer_table ! i)
         + lapse_rate (layer_table ! i) * (h - base_altitude (layer_table ! i))))"
  using assms
  by (auto simp: get_temperature_def get_level_cases layer_table_def
        Tb_table_def a_table_def hb_table_def)

theorem get_temperature_linear_witness:
  "(0::real) \<le> 5000 \<and> (5000::real) < 71000 \<and> get_level (Num 5000) = Some 0
   \<and> get_temperature (Num 5000) = Inr (Num (288.15 + - 0.0065 * (5000 - 0)))"
  using get_temperature_linear [of 5000]
  by (simp add: get_level_cases layer_table_def)

text \<open>
  Claim C9. The table \<open>_Lb\<close> of \<open>get_pressure\<close> and \<open>get_density\<close> is the elementwise
  negation of the table \<open>_a\<close> of \<open>get_temperature\<close>; so for every altitude \<open>h\<close> in
  \<open>[0, 71000)\<close> in a non-isothermal layer, the base of the power
  \<open>1 - _Lb * (h - h_b) / T_b\<close> is \<open>get_temperature h / T_b\<close>.
\<close>

theorem lapse_tables_negated:
  assumes "0 \<le> h" "h < 71000" "get_level (Num h) = Some i" "Lb_table ! i \<noteq> 0"
  shows "Lb_table = map uminus a_table
    \<and> get_temperature (Num h) = Inr (Num (temperature_in i h))
    \<and> 1 - Lb_table ! i * (h - hb_table ! i) / Tb_table ! i = temperature_in i h / Tb_table ! i"
proof -
  have neg: "Lb_table = map uminus a_table"
    by (simp add: Lb_table_def a_table_def)
  have "i < 6" using assms(3) by (rule get_level_range)
  then have "1 - Lb_table ! i * (h - hb_table ! i) / Tb_table ! i
               = temperature_in i h / Tb_table ! i"
    by (auto simp: lt6 temperature_in_def Lb_table_def a_table_def hb_table_def Tb_table_def
          field_simps)
  with neg get_temperature_in [OF assms(3)] show ?thesis by simp
qed

theorem lapse_tables_negated_witness:
  "(0::real) \<le> 25000 \<and> (25000::real) < 71000 \<and> get_level (Num 25000) = Some 2
   \<and> Lb_table ! 2 \<noteq> 0 \<and> Lb_table = map uminus a_table
   \<and> get_temperature (Num 25000) = Inr (Num (temperature_in 2 25000))
   \<and> 1 - Lb_table ! 2 * (25000 - hb_table ! 2) / Tb_table ! 2
       = temperature_in 2 25000 / Tb_table ! 2"
proof -
  have lv: "get_level (Num 25000) = Some 2" by (simp add: get_level_cases)
  have nz: "Lb_table ! 2 \<noteq> 0" by (simp add: Lb_table_def)
  show ?thesis using lv nz lapse_tables_negated [OF _ _ lv nz] by simp
qed

section \<open>Pressure and density\<close>

text \<open>
  Claim C6. For every altitude \<open>h\<close> in \<open>[11000, 20000)\<close>, the isothermal tropopause,
  \<open>get_pressure h = 22632.06 * exp (-9.81 * 0.028964 * (h - 11000) / (8.314 * 216.65))\<close>.
\<close>

theorem get_pressure_isothermal:
  assumes "11000 \<le> h" "h < 20000"
  shows "get_pressure (Num h)
           = Inr (Num (22632.06 * exp (- 9.81 * 0.028964 * (h - 11000) / (8.314 * 216.65))))"
  using assms
  by (simp add: get_pressure_def get_level_cases Pb_table_def Tb_table_def Lb_table_def
        hb_table_def)

theorem get_pressure_isothermal_witness:
  "(11000::real) \<le> 15000 \<and> (15000::real) < 20000
   \<and> get_pressure (Num 15000)
       = Inr (Num (22632.06 * exp (- 9.81 * 0.028964 * (15000 - 11000) / (8.314 * 216.65))))"
  using get_pressure_isothermal [of 15000] by simp

text \<open>
  Claim C4. At the reference altitudes the evaluators return the ISA reference values
  within the tolerance \<open>1e-6\<close>: temperature 288.15 K, pressure 101325.00 Pa and density
  1.225 at altitude 0; temperature 216.65 K and pressure 22632.06 Pa at 11000;
  density 0.08803 at 20000. (Each is the base constant of its layer, returned exactly.)
\<close>

theorem reference_values:
  "returns_within (get_temperature (Num 0)) 288.15 (1 / 10 ^ 6)
   \<and> returns_within (get_pressure (Num 0)) 101325.00 (1 / 10 ^ 6)
   \<and> returns_within (get_density (Num 0)) 1.225 (1 / 10 ^ 6)
   \<and> returns_within (get_temperature (Num 11000)) 216.65 (1 / 10 ^ 6)
   \<and> returns_within (get_pressure (Num 11000)) 22632.06 (1 / 10 ^ 6)
   \<and> returns_within (get_density (Num 20000)) 0.08803 (1 / 10 ^ 6)"
  by (simp add: returns_within_def get_temperature_def get_pressure_def get_density_def
        get_level_cases Pb_table_def Tb_table_def Lb_table_def hb_table_def a_table_def
        Db_table_def)

text \<open>
  Claim C1, as stated: in a non-isothermal layer the pressure is
  \<open>P_b * (1 - L * (h - h_b) / T_b) ^ (g * M / (R * L))\<close> with \<open>L\<close> the lapse rate of the
  temperature formula. It fails at altitude 1000, where that lapse rate is \<open>-0.0065\<close>
  and the source computes with \<open>0.0065\<close>.
\<close>

theorem polytropic_sign_counterexample:
  "get_level (Num 1000) = Some 0 \<and> lapse_rate (layer_table ! 0) \<noteq> 0
   \<and> get_pressure (Num 1000)
       \<noteq> Inr (Num (polytropic_pressure (layer_table ! 0) (lapse_rate (layer_table ! 0)) 1000))"
proof -
  have lv: "get_level (Num 1000) = Some 0" by (simp add: get_level_cases)
  have "(1 - (6.5 / 288.15 :: real)) powr (9.81 * 0.028964 / (8.314 * 0.0065))
          \<noteq> (1 + 6.5 / 288.15) powr (- (9.81 * 0.028964 / (8.314 * 0.0065)))"
    by (rule powr_mismatch) simp_all
  then have "pressure_in 0 1000
               \<noteq> polytropic_pressure (layer_table ! 0) (lapse_rate (layer_table ! 0)) 1000"
    by (simp add: pressure_in_def polytropic_pressure_def layer_table_def Lb_table_def
          Pb_table_def hb_table_def Tb_table_def)
  with get_pressure_in [OF lv] lv show ?thesis by (simp add: layer_table_def)
qed

text \<open>
  Claim C1, amended: for every altitude \<open>h\<close> in \<open>[0, 71000)\<close> whose layer is
  non-isothermal, \<open>get_pressure h = P_b * (1 - L * (h - h_b) / T_b) ^ (g * M / (R * L))\<close>
  and \<open>get_density h = D_b * (1 - L * (h - h_b) / T_b) ^ (g * M / (R * L) - 1)\<close> with
  \<open>g = 9.81\<close>, \<open>M = 0.028964\<close>, \<open>R = 8.314\<close>, where \<open>L\<close> is the negation of the layer's
  lapse rate of the temperature formula \<open>T = T_b + lapse_rate * (h - h_b)\<close>.
\<close>

theorem polytropic_formulas:
  assumes "0 \<le> h" "h < 71000" "get_level (Num h) = Some i"
    "lapse_rate (layer_table ! i) \<noteq> 0"
  shows "get_pressure (Num h)
           = Inr (Num (polytropic_pressure (layer_table ! i) (- lapse_rate (layer_table ! i)) h))
       \<and> get_density (Num h)
           = Inr (Num (polytropic_density (layer_table ! i) (- lapse_rate (layer_table ! i)) h))"
proof -
  have "i < 6" using assms(3) by (rule get_level_range)
  with assms(4)
  have "pressure_in i h
          = polytropic_pressure (layer_table ! i) (- lapse_rate (layer_table ! i)) h
      \<and> density_in i h
          = polytropic_density (layer_table ! i) (- lapse_rate (layer_table ! i)) h"
    by (auto simp: lt6 pressure_in_def density_in_def polytropic_pressure_def
          polytropic_density_def layer_table_def Lb_table_def Pb_table_def Db_table_def
          hb_table_def Tb_table_def)
  with get_pressure_in [OF assms(3)] get_density_in [OF assms(3)] show ?thesis by simp
qed

theorem polytropic_formulas_witness:
  "(0::real) \<le> 1000 \<and> (1000::real) < 71000 \<and> get_level (Num 1000) = Some 0
   \<and> lapse_rate (layer_table ! 0) \<noteq> 0
   \<and> get_pressure (Num 1000)
       = Inr (Num (101325 * (1 - 0.0065 * (1000 - 0) / 288.15)
                     powr (9.81 * 0.028964 / (8.314 * 0.0065))))
   \<and> get_density (Num 1000)
       = Inr (Num (1.225 * (1 - 0.0065 * (1000 - 0) / 288.15)
                     powr (9.81 * 0.028964 / (8.314 * 0.0065) - 1)))"
proof -
  have lv: "get_level (Num 1000) = Some 0" by (simp add: get_level_cases)
  have nz: "lapse_rate (layer_table ! 0) \<noteq> 0" by (simp add: layer_table_def)
  show ?thesis
    using lv nz polytropic_formulas [OF _ _ lv nz]
    by (simp add: polytropic_pressure_def polytropic_density_def layer_table_def)
qed

section \<open>Monotonicity\<close>

text \<open>The base of the power is positive wherever \<open>get_level\<close> finds a layer.\<close>

lemma power_base_pos:
  assumes "get_level (Num h) = Some l"
  shows "0 < 1 - Lb_table ! l * (h - hb_table ! l) / Tb_table ! l"
  using assms
  by (auto simp: get_level_cases Lb_table_def hb_table_def Tb_table_def field_simps
        split: if_splits)

text \<open>The closed forms of the six layers, with the table entries written out.\<close>

lemma pressure_in_forms:
  "pressure_in 0 h = 101325 * (1 - 0.0065 * h / 288.15)
                       powr (9.81 * 0.028964 / (8.314 * 0.0065))"
  "pressure_in 1 h = 22632.06 * exp (- (9.81 * 0.028964 * (h - 11000) / (8.314 * 216.65)))"
  "pressure_in 2 h = 5474.89 * (1 + 0.001 * (h - 20000) / 216.65)
                       powr (- (9.81 * 0.028964 / (8.314 * 0.001)))"
  "pressure_in 3 h = 868.02 * (1 + 0.0028 * (h - 32000) / 228.65)
                       powr (- (9.81 * 0.028964 / (8.314 * 0.0028)))"
  "pressure_in 4 h = 110.91 * exp (- (9.81 * 0.028964 * (h - 47000) / (8.314 * 270.65)))"
  "pressure_in 5 h = 66.94 * (1 - 0.0028 * (h - 51000) / 270.65)
                       powr (9.81 * 0.028964 / (8.314 * 0.0028))"
  by (simp_all add: pressure_in_def Lb_table_def hb_table_def Tb_table_def Pb_table_def)

lemma density_in_forms:
  "density_in 0 h = 1.225 * (1 - 0.0065 * h / 288.15)
                      powr (9.81 * 0.028964 / (8.314 * 0.0065) - 1)"
  "density_in 1 h = 0.36391 * exp (- (9.81 * 0.028964 * (h - 11000) / (8.314 * 216.65)))"
  "density_in 2 h = 0.08803 * (1 + 0.001 * (h - 20000) / 216.65)
                      powr (- (9.81 * 0.028964 / (8.314 * 0.001) + 1))"
  "density_in 3 h = 0.01322 * (1 + 0.0028 * (h - 32000) / 228.65)
                      powr (- (9.81 * 0.028964 / (8.314 * 0.0028) + 1))"
  "density_in 4 h = 0.00143 * exp (- (9.81 * 0.028964 * (h - 47000) / (8.314 * 270.65)))"
  "density_in 5 h = 0.00086 * (1 - 0.0028 * (h - 51000) / 270.65)
                      powr (9.81 * 0.028964 / (8.314 * 0.0028) - 1)"
  by (simp_all add: density_in_def Lb_table_def hb_table_def Tb_table_def Db_table_def)

text \<open>
  Inside one layer, boundary included, the closed forms fall by a relative amount of at
  least \<open>(b - a) / 20000\<close> between \<open>a\<close> and \<open>b\<close>, and are positive.
\<close>

lemma pressure_in_rate:
  assumes "l < 6" "hb_table ! l \<le> a" "a \<le> b" "b \<le> breakpoints ! l"
  shows "pressure_in l b * (1 + (b - a) / 20000) \<le> pressure_in l a"
proof -
  consider "l = 0" | "l = 1" | "l = 2" | "l = 3" | "l = 4" | "l = 5"
    using assms(1) by (auto simp: lt6)
  then show ?thesis
  proof cases
    case 1
    with assms have "0 \<le> a" "a \<le> b" "b \<le> 11000"
      by (simp_all add: hb_table_def breakpoints_def)
    then show ?thesis unfolding 1 pressure_in_forms
      by (intro powr_rate_down) (simp_all add: field_simps)
  next
    case 2
    with assms have "11000 \<le> a" "a \<le> b" "b \<le> 20000"
      by (simp_all add: hb_table_def breakpoints_def)
    then show ?thesis unfolding 2 pressure_in_forms
      by (intro exp_rate) (simp_all add: field_simps)
  next
    case 3
    with assms have "20000 \<le> a" "a \<le> b" "b \<le> 32000"
      by (simp_all add: hb_table_def breakpoints_def)
    then show ?thesis unfolding 3 pressure_in_forms
      by (intro powr_rate_up [where bmax = "1.06"]) (simp_all add: field_simps)
  next
    case 4
    with assms have "32000 \<le> a" "a \<le> b" "b \<le> 47000"
      by (simp_all add: hb_table_def breakpoints_def)
    then show ?thesis unfolding 4 pressure_in_forms
      by (intro powr_rate_up [where bmax = "1.19"]) (simp_all add: field_simps)
  next
    case 5
    with assms have "47000 \<le> a" "a \<le> b" "b \<le> 51000"
      by (simp_all add: hb_table_def breakpoints_def)
    then show ?thesis unfolding 5 pressure_in_forms
      by (intro exp_rate) (simp_all add: field_simps)
  next
    case 6
    with assms have "51000 \<le> a" "a \<le> b" "b \<le> 71000"
      by (simp_all add: hb_table_def breakpoints_def)
    then show ?thesis unfolding 6 pressure_in_forms
      by (intro powr_rate_down) (simp_all add: field_simps)
  qed
qed

lemma density_in_rate:
  assumes "l < 6" "hb_table ! l \<le> a" "a \<le> b" "b \<le> breakpoints ! l"
  shows "density_in l b * (1 + (b - a) / 20000) \<le> density_in l a"
proof -
  consider "l = 0" | "l = 1" | "l = 2" | "l = 3" | "l = 4" | "l = 5"
    using assms(1) by (auto simp: lt6)
  then show ?thesis
  proof cases
    case 1
    with assms have "0 \<le> a" "a \<le> b" "b \<le> 11000"
      by (simp_all add: hb_table_def breakpoints_def)
    then show ?thesis unfolding 1 density_in_forms
      by (intro powr_rate_down) (simp_all add: field_simps)
  next
    case 2
    with assms have "11000 \<le> a" "a \<le> b" "b \<le> 20000"
      by (simp_all add: hb_table_def breakpoints_def)
    then show ?thesis unfolding 2 density_in_forms
      by (intro exp_rate) (simp_all add: field_simps)
  next
    case 3
    with assms have "20000 \<le> a" "a \<le> b" "b \<le> 32000"
      by (simp_all add: hb_table_def breakpoints_def)
    then show ?thesis unfolding 3 density_in_forms
      by (intro powr_rate_up [where bmax = "1.06"]) (simp_all add: field_simps)
  next
    case 4
    with assms have "32000 \<le> a" "a \<le> b" "b \<le> 47000"
      by (simp_all add: hb_table_def breakpoints_def)
    then show ?thesis unfolding 4 density_in_forms
      by (intro powr_rate_up [where bmax = "1.19"]) (simp_all add: field_simps)
  next
    case 5
    with assms have "47000 \<le> a" "a \<le> b" "b \<le> 51000"
      by (simp_all add: hb_table_def breakpoints_def)
    then show ?thesis unfolding 5 density_in_forms
      by (intro exp_rate) (simp_all add: field_simps)
  next
    case 6
    with assms have "51000 \<le> a" "a \<le> b" "b \<le> 71000"
      by (simp_all add: hb_table_def breakpoints_def)
    then show ?thesis unfolding 6 density_in_forms
      by (intro powr_rate_down) (simp_all add: field_simps)
  qed
qed

lemma pressure_in_pos:
  assumes "l < 6" "hb_table ! l \<le> h" "h \<le> breakpoints ! l"
  shows "0 < pressure_in l h"
proof -
  consider "l = 0" | "l = 1" | "l = 2" | "l = 3" | "l = 4" | "l = 5"
    using assms(1) by (auto simp: lt6)
  then show ?thesis
  proof cases
    case 1
    show ?thesis using assms(2,3) unfolding 1 pressure_in_forms
      by (simp add: hb_table_def breakpoints_def field_simps)
  next
    case 2
    show ?thesis using assms(2,3) unfolding 2 pressure_in_forms
      by (simp add: hb_table_def breakpoints_def field_simps)
  next
    case 3
    show ?thesis using assms(2,3) unfolding 3 pressure_in_forms
      by (simp add: hb_table_def breakpoints_def field_simps)
  next
    case 4
    show ?thesis using assms(2,3) unfolding 4 pressure_in_forms
      by (simp add: hb_table_def breakpoints_def field_simps)
  next
    case 5
    show ?thesis using assms(2,3) unfolding 5 pressure_in_forms
      by (simp add: hb_table_def breakpoints_def field_simps)
  next
    case 6
    show ?thesis using assms(2,3) unfolding 6 pressure_in_forms
      by (simp add: hb_table_def breakpoints_def field_simps)
  qed
qed

lemma density_in_pos:
  assumes "l < 6" "hb_table ! l \<le> h" "h \<le> breakpoints ! l"
  shows "0 < density_in l h"
proof -
  consider "l = 0" | "l = 1" | "l = 2" | "l = 3" | "l = 4" | "l = 5"
    using assms(1) by (auto simp: lt6)
  then show ?thesis
  proof cases
    case 1
    show ?thesis using assms(2,3) unfolding 1 density_in_forms
      by (simp add: hb_table_def breakpoints_def field_simps)
  next
    case 2
    show ?thesis using assms(2,3) unfolding 2 density_in_forms
      by (simp add: hb_table_def breakpoints_def field_simps)
  next
    case 3
    show ?thesis using assms(2,3) unfolding 3 density_in_forms
      by (simp add: hb_table_def breakpoints_def field_simps)
  next
    case 4
    show ?thesis using assms(2,3) unfolding 4 density_in_forms
      by (simp add: hb_table_def breakpoints_def field_simps)
  next
    case 5
    show ?thesis using assms(2,3) unfolding 5 density_in_forms
      by (simp add: hb_table_def breakpoints_def field_simps)
  next
    case 6
    show ?thesis using assms(2,3) unfolding 6 density_in_forms
      by (simp add: hb_table_def breakpoints_def field_simps)
  qed
qed

lemma level_bounds:
  assumes "get_level (Num h) = Some l" "0 \<le> h"
  shows "l < 6" "hb_table ! l \<le> h" "h < breakpoints ! l"
  using assms
  by (auto simp: get_level_cases hb_table_def breakpoints_def split: if_splits)

lemma seam_tables:
  "i < 5 \<Longrightarrow> hb_table ! Suc i = breakpoints ! i"
  "i < j \<Longrightarrow> j < 6 \<Longrightarrow> breakpoints ! i \<le> hb_table ! j"
  "j < 6 \<Longrightarrow> hb_table ! j < breakpoints ! j"
  by (auto simp: lt6 hb_table_def breakpoints_def numeral_eq_Suc less_Suc_eq)

text \<open>
  The argument for any family \<open>F\<close> of closed forms and any window widths \<open>w\<close>: the
  pair \<open>h1 < h2\<close> is in one layer, or \<open>h2\<close> is two or more layers above, or one of
  the two lies outside the window around the boundary between them.
\<close>

lemma decreasing_generic:
  fixes F :: "nat \<Rightarrow> real \<Rightarrow> real" and w :: "nat \<Rightarrow> real"
  assumes rate: "\<And>l a b. l < 6 \<Longrightarrow> hb_table ! l \<le> a \<Longrightarrow> a \<le> b \<Longrightarrow> b \<le> breakpoints ! l
                   \<Longrightarrow> F l b * (1 + (b - a) / 20000) \<le> F l a"
    and pos: "\<And>l h. l < 6 \<Longrightarrow> hb_table ! l \<le> h \<Longrightarrow> h \<le> breakpoints ! l \<Longrightarrow> 0 < F l h"
    and wnn: "\<And>i. i < 5 \<Longrightarrow> 0 \<le> w i"
    and below: "\<And>i. i < 5 \<Longrightarrow>
                   F (Suc i) (breakpoints ! i) * (1 + 1 / 20000) \<le> F i (breakpoints ! i - w i)"
    and above: "\<And>i. i < 5 \<Longrightarrow>
                   F (Suc i) (breakpoints ! i + w i) * (1 + 1 / 20000) \<le> F i (breakpoints ! i)"
    and far: "\<And>i j. Suc i < j \<Longrightarrow> j < 6 \<Longrightarrow>
                   F j (hb_table ! j) * (1 + 1 / 20000) \<le> F i (breakpoints ! i)"
    and lv: "get_level (Num h1) = Some i" "get_level (Num h2) = Some j"
    and h: "0 \<le> h1" "h1 < h2"
    and win: "h2 < breakpoints ! i \<or> h1 + w i \<le> breakpoints ! i \<or> breakpoints ! i + w i \<le> h2"
  shows "F j h2 * (1 + min (h2 - h1) 1 / 20000) \<le> F i h1 \<and> F j h2 < F i h1"
proof -
  note b1 = level_bounds [OF lv(1) h(1)]
  have h2: "0 \<le> h2" using h by simp
  note b2 = level_bounds [OF lv(2) h2]
  have p2: "0 < F j h2" using b2 by (intro pos) simp_all
  have mono: "F l b \<le> F l a"
    if "l < 6" "hb_table ! l \<le> a" "a \<le> b" "b \<le> breakpoints ! l" for l a b
  proof -
    have "0 < F l b" using that by (intro pos) simp_all
    then have "F l b * 1 \<le> F l b * (1 + (b - a) / 20000)"
      using that(3) by (intro mult_left_mono) simp_all
    also have "\<dots> \<le> F l a" using that by (rule rate)
    finally show ?thesis by simp
  qed
  have step: "F j h2 * (1 + min (h2 - h1) 1 / 20000) \<le> F i h1"
  proof (cases "h2 < breakpoints ! i")
    case True
    have "j = i"
    proof (rule ccontr)
      assume "j \<noteq> i"
      then consider "i < j" | "j < i" by arith
      then show False
      proof cases
        case 1
        then have "breakpoints ! i \<le> hb_table ! j" using b2(1) by (rule seam_tables(2))
        with b2(2) True show False by simp
      next
        case 2
        then have "breakpoints ! j \<le> hb_table ! i" using b1(1) by (rule seam_tables(2))
        with b1(2) b2(3) h(2) show False by simp
      qed
    qed
    have "F i h2 * (1 + min (h2 - h1) 1 / 20000) \<le> F i h2 * (1 + (h2 - h1) / 20000)"
      using p2 \<open>j = i\<close> by (intro mult_left_mono) simp_all
    also have "\<dots> \<le> F i h1"
      using b1(1,2) h(2) True by (intro rate) simp_all
    finally show ?thesis using \<open>j = i\<close> by simp
  next
    case False
    then have s: "breakpoints ! i \<le> h2" by simp
    have ij: "i < j"
    proof (rule ccontr)
      assume "\<not> i < j"
      then have "j = i \<or> j < i" by arith
      then show False
      proof
        assume "j = i" with b2(3) s show False by simp
      next
        assume "j < i"
        then have "breakpoints ! j \<le> hb_table ! i" using b1(1) by (rule seam_tables(2))
        with b1(2) b2(3) h(2) show False by simp
      qed
    qed
    then have i5: "i < 5" using b2(1) by simp
    have top: "F i (breakpoints ! i) \<le> F i h1"
      using b1 by (intro mono) simp_all
    have gap: "F j h2 * (1 + 1 / 20000) \<le> F i h1"
    proof (cases "Suc i < j")
      case True
      have "F j h2 \<le> F j (hb_table ! j)"
        using b2 by (intro mono) simp_all
      then have "F j h2 * (1 + 1 / 20000) \<le> F j (hb_table ! j) * (1 + 1 / 20000)"
        by (intro mult_right_mono) simp_all
      also have "\<dots> \<le> F i (breakpoints ! i)" using True b2(1) by (rule far)
      finally show ?thesis using top by simp
    next
      case False
      with ij have j: "j = Suc i" by simp
      have hbj: "hb_table ! Suc i = breakpoints ! i" using i5 by (rule seam_tables(1))
      from win s \<open>\<not> h2 < breakpoints ! i\<close>
      consider "h1 + w i \<le> breakpoints ! i" | "breakpoints ! i + w i \<le> h2" by blast
      then show ?thesis
      proof cases
        case 1
        have "F (Suc i) h2 \<le> F (Suc i) (breakpoints ! i)"
          using b2 s unfolding j by (intro mono) (simp_all add: hbj)
        then have "F (Suc i) h2 * (1 + 1 / 20000)
                     \<le> F (Suc i) (breakpoints ! i) * (1 + 1 / 20000)"
          by (intro mult_right_mono) simp_all
        also have "\<dots> \<le> F i (breakpoints ! i - w i)" using i5 by (rule below)
        also have "\<dots> \<le> F i h1"
          using b1 1 wnn [OF i5] by (intro mono) simp_all
        finally show ?thesis unfolding j .
      next
        case 2
        have "F (Suc i) h2 \<le> F (Suc i) (breakpoints ! i + w i)"
          using b2 2 wnn [OF i5] unfolding j by (intro mono) (simp_all add: hbj)
        then have "F (Suc i) h2 * (1 + 1 / 20000)
                     \<le> F (Suc i) (breakpoints ! i + w i) * (1 + 1 / 20000)"
          by (intro mult_right_mono) simp_all
        also have "\<dots> \<le> F i (breakpoints ! i)" using i5 by (rule above)
        finally show ?thesis using top unfolding j by simp
      qed
    qed
    have "F j h2 * (1 + min (h2 - h1) 1 / 20000) \<le> F j h2 * (1 + 1 / 20000)"
      using p2 by (intro mult_left_mono) simp_all
    with gap show ?thesis by simp
  qed
  moreover have "F j h2 < F j h2 * (1 + min (h2 - h1) 1 / 20000)"
    using p2 h(2) by simp
  ultimately show ?thesis by simp
qed

text \<open>
  One metre below the seam at 47000 the closed form of layer 3 is already below the
  base density 0.00143 of layer 4.
\<close>

lemma density_below_47000: "density_in 3 46999 < 0.00143"
proof -
  define b :: real where "b = 1 - (- 0.0028) * (46999 - 32000) / 228.65"
  define e :: real where "e = 9.81 * 0.028964 / (8.314 * (- 0.0028)) - 1"
  have "1 / 10 < b powr e \<and> b powr e < 143 / 1322"
    by (rule powr_bracket_large [where n = 13 and pa = 1 and qa = 5 and ra = "1.0342"
          and pb = 1 and qb = 4 and rb = "1.05"])
       (simp_all add: b_def e_def divide_simps)
  then have bound: "b powr e < 143 / 1322" by simp
  have eq: "density_in 3 46999 = 0.01322 * b powr e"
    by (simp add: density_in_def b_def e_def Lb_table_def hb_table_def Tb_table_def
          Db_table_def)
  show ?thesis unfolding eq using bound by simp
qed

text \<open>
  One metre below the seam at 20000 the closed form of layer 1 is already below the
  base pressure 5474.89 of layer 2.
\<close>

lemma pressure_below_20000: "pressure_in 1 19999 < 5474.89"
proof -
  define X :: real where "X = exp (- (9.81 * 0.028964 * 8999 / (8.314 * 216.65)))"
  have eq: "pressure_in 1 19999 = 22632.06 * X"
    by (simp add: pressure_in_def X_def Lb_table_def hb_table_def Tb_table_def Pb_table_def)
  have "inverse 4.1356 \<le> X \<and> X \<le> inverse 4.1349"
    unfolding X_def
    by (rule exp_bracket [where lo = "1.4195" and hi = "1.4196"])
       (simp_all add: eval_nat_numeral)
  then have "X \<le> inverse 4.1349" by simp
  then show ?thesis unfolding eq by simp
qed

text \<open>
  Claim C8, as stated: \<open>get_pressure\<close> and \<open>get_density\<close> are strictly decreasing over
  the whole of \<open>[0, 71000)\<close>, across layer boundaries too. It fails for the density
  between 46999 and 47000 and for the pressure between 19999 and 20000: the value rises
  to the tabulated base value of the upper layer.
\<close>

theorem decreasing_counterexample:
  "(0::real) \<le> 46999 \<and> (46999::real) < 47000 \<and> (47000::real) < 71000
   \<and> get_density (Num 46999) = Inr (Num (density_in 3 46999))
   \<and> get_density (Num 47000) = Inr (Num 0.00143)
   \<and> density_in 3 46999 < 0.00143
   \<and> (0::real) \<le> 19999 \<and> (19999::real) < 20000 \<and> (20000::real) < 71000
   \<and> get_pressure (Num 19999) = Inr (Num (pressure_in 1 19999))
   \<and> get_pressure (Num 20000) = Inr (Num 5474.89)
   \<and> pressure_in 1 19999 < 5474.89"
proof -
  have l1: "get_level (Num 46999) = Some 3" by (simp add: get_level_cases)
  have l2: "get_level (Num 47000) = Some 4" by (simp add: get_level_cases)
  have l3: "get_level (Num 19999) = Some 1" by (simp add: get_level_cases)
  have l4: "get_level (Num 20000) = Some 2" by (simp add: get_level_cases)
  have d: "density_in 4 47000 = 0.00143"
    by (simp add: density_in_def Lb_table_def hb_table_def Tb_table_def Db_table_def)
  have p: "pressure_in 2 20000 = 5474.89"
    by (simp add: pressure_in_def Lb_table_def hb_table_def Tb_table_def Pb_table_def)
  show ?thesis
    using get_density_in [OF l1] get_density_in [OF l2] get_pressure_in [OF l3]
      get_pressure_in [OF l4] d p density_below_47000 pressure_below_20000
    by simp
qed

subsection \<open>Values of the closed forms near the boundaries\<close>

text \<open>
  Numerical bounds on the closed forms at each boundary and at the edges of its window.
\<close>

lemma pressure_in_0_11000_ge: "22619.641 \<le> pressure_in 0 11000"
proof -
  have flip: "(1 - 0.0065 * 11000 / 288.15 :: real) powr (9.81 * 0.028964 / (8.314 * 0.0065))
                = inverse (1 - 0.0065 * 11000 / 288.15) powr (- (9.81 * 0.028964 / (8.314 * 0.0065)))"
    by (rule powr_flip) simp
  show ?thesis unfolding pressure_in_forms flip
    by (rule scaled_powr_lower [where n = 15 and lnu = "0.28519802971" and hi = "1.4995145711"
          and xc = "1.5" and \<rho> = "0.000000000848" and U = "4.4795140578"])
       (simp_all add: eval_nat_numeral)
qed

lemma pressure_in_0_10996_ge: "22633.9173 \<le> pressure_in 0 10996"
proof -
  have flip: "(1 - 0.0065 * 10996 / 288.15 :: real) powr (9.81 * 0.028964 / (8.314 * 0.0065))
                = inverse (1 - 0.0065 * 10996 / 288.15) powr (- (9.81 * 0.028964 / (8.314 * 0.0065)))"
    by (rule powr_flip) simp
  show ?thesis unfolding pressure_in_forms flip
    by (rule scaled_powr_lower [where n = 15 and lnu = "0.28507802768" and hi = "1.4988836243"
          and xc = "1.5" and \<rho> = "0.000000000848" and U = "4.4766886141"])
       (simp_all add: eval_nat_numeral)
qed

lemma pressure_in_1_11004_le: "pressure_in 1 11004 \<le> 22617.7841"
  unfolding pressure_in_forms
  by (rule scaled_exp_upper [where n = 15 and lo = "0.0006309845" and L = "1.0006311836"])
     (simp_all add: eval_nat_numeral)

lemma pressure_in_1_20000_ge: "5472.04237 \<le> pressure_in 1 20000"
  unfolding pressure_in_forms
  by (rule scaled_exp_lower [where n = 15 and hi = "1.4197155598" and xc = "1.5"
        and \<rho> = "0.000000000848" and U = "4.1359438451"])
     (simp_all add: eval_nat_numeral)

lemma pressure_in_1_19996_ge: "5475.49624 \<le> pressure_in 1 19996"
  unfolding pressure_in_forms
  by (rule scaled_exp_lower [where n = 15 and hi = "1.4190845751" and xc = "1.5"
        and \<rho> = "0.000000000848" and U = "4.133334951"])
     (simp_all add: eval_nat_numeral)

lemma pressure_in_2_20004_le: "pressure_in 2 20004 \<le> 5471.43656"
  unfolding pressure_in_forms
  by (rule scaled_powr_upper [where n = 15 and lnl = "0.00001846277" and xl = "0.1"
          and \<rho> = "0.00000000000000000000000000013" and lo = "0.0006309782" and L = "1.0006311773"])
       (simp_all add: eval_nat_numeral)

lemma pressure_in_2_32000_ge: "867.433517 \<le> pressure_in 2 32000"
  unfolding pressure_in_forms
  by (rule scaled_powr_lower [where n = 15 and lnu = "0.05390930193" and hi = "1.8423885852"
        and xc = "1.9" and \<rho> = "0.0000000373" and U = "6.3115960918"])
     (simp_all add: eval_nat_numeral)

lemma pressure_in_2_31995_ge: "868.082031 \<le> pressure_in 2 31995"
  unfolding pressure_in_forms
  by (rule scaled_powr_lower [where n = 15 and lnu = "0.05388743421" and hi = "1.8416412404"
        and xc = "1.9" and \<rho> = "0.0000000373" and U = "6.3068809155"])
     (simp_all add: eval_nat_numeral)

lemma pressure_in_3_32005_le: "pressure_in 3 32005 \<le> 867.37156"
  unfolding pressure_in_forms
  by (rule scaled_powr_upper [where n = 15 and lnl = "0.00006122706" and xl = "0.1"
          and \<rho> = "0.00000000000000000000000000013" and lo = "0.0007473136" and L = "1.0007475929"])
       (simp_all add: eval_nat_numeral)

lemma pressure_in_3_47000_ge: "110.822917 \<le> pressure_in 3 47000"
  unfolding pressure_in_forms
  by (rule scaled_powr_lower [where n = 15 and lnu = "0.16863402315" and hi = "2.0582811461"
        and xc = "2.1" and \<rho> = "0.000000185" and U = "7.8324954976"])
     (simp_all add: eval_nat_numeral)

lemma pressure_in_3_46993_ge: "110.920921 \<le> pressure_in 3 46993"
  unfolding pressure_in_forms
  by (rule scaled_powr_lower [where n = 15 and lnu = "0.16856160228" and hi = "2.0573972052"
        and xc = "2.1" and \<rho> = "0.000000185" and U = "7.8255750937"])
     (simp_all add: eval_nat_numeral)

lemma pressure_in_4_47007_le: "pressure_in 4 47007 \<le> 110.812009"
  unfolding pressure_in_forms
  by (rule scaled_exp_upper [where n = 15 and lo = "0.0008839088" and L = "1.0008842995"])
     (simp_all add: eval_nat_numeral)

lemma pressure_in_4_51000_ge: "66.9287237 \<le> pressure_in 4 51000"
  unfolding pressure_in_forms
  by (rule scaled_exp_lower [where n = 15 and hi = "0.5050908325" and xc = "0.6"
        and \<rho> = "0.000000000000000365" and U = "1.6571360355"])
     (simp_all add: eval_nat_numeral)

lemma pressure_in_4_50998_ge: "66.9456284 \<le> pressure_in 4 50998"
  unfolding pressure_in_forms
  by (rule scaled_exp_lower [where n = 15 and hi = "0.5048382871" and xc = "0.6"
        and \<rho> = "0.000000000000000365" and U = "1.6567175862"])
     (simp_all add: eval_nat_numeral)

lemma pressure_in_5_51002_le: "pressure_in 5 51002 \<le> 66.9230966"
proof -
  have flip: "(1 - 0.0028 * (51002 - 51000) / 270.65 :: real) powr (9.81 * 0.028964 / (8.314 * 0.0028))
                = inverse (1 - 0.0028 * (51002 - 51000) / 270.65) powr (- (9.81 * 0.028964 / (8.314 * 0.0028)))"
    by (rule powr_flip) simp
  show ?thesis unfolding pressure_in_forms flip
    by (rule scaled_powr_upper [where n = 15 and lnl = "0.00002069113" and xl = "0.1"
          and \<rho> = "0.00000000000000000000000000013" and lo = "0.0002525478" and L = "1.0002525796"])
       (simp_all add: eval_nat_numeral)
qed

lemma density_in_0_11000_ge: "0.363718268 \<le> density_in 0 11000"
proof -
  have flip: "(1 - 0.0065 * 11000 / 288.15 :: real) powr (9.81 * 0.028964 / (8.314 * 0.0065) - 1)
                = inverse (1 - 0.0065 * 11000 / 288.15) powr (- (9.81 * 0.028964 / (8.314 * 0.0065) - 1))"
    by (rule powr_flip) simp
  show ?thesis unfolding density_in_forms flip
    by (rule scaled_powr_lower [where n = 15 and lnu = "0.28519802971" and hi = "1.2143165414"
          and xc = "1.3" and \<rho> = "0.0000000000859" and U = "3.367991395"])
       (simp_all add: eval_nat_numeral)
qed

lemma density_in_0_10995_ge: "0.363950639 \<le> density_in 0 10995"
proof -
  have flip: "(1 - 0.0065 * 10995 / 288.15 :: real) powr (9.81 * 0.028964 / (8.314 * 0.0065) - 1)
                = inverse (1 - 0.0065 * 10995 / 288.15) powr (- (9.81 * 0.028964 / (8.314 * 0.0065) - 1))"
    by (rule powr_flip) simp
  show ?thesis unfolding density_in_forms flip
    by (rule scaled_powr_lower [where n = 15 and lnu = "0.28504802942" and hi = "1.21367787"
          and xc = "1.3" and \<rho> = "0.0000000000859" and U = "3.365841042"])
       (simp_all add: eval_nat_numeral)
qed

lemma density_in_1_11005_le: "density_in 1 11005 \<le> 0.363623087"
  unfolding density_in_forms
  by (rule scaled_exp_upper [where n = 15 and lo = "0.0007887307" and L = "1.0007890418"])
     (simp_all add: eval_nat_numeral)

lemma density_in_1_20000_ge: "0.0879871714 \<le> density_in 1 20000"
  unfolding density_in_forms
  by (rule scaled_exp_lower [where n = 15 and hi = "1.4197155598" and xc = "1.5"
        and \<rho> = "0.000000000848" and U = "4.1359438451"])
     (simp_all add: eval_nat_numeral)

lemma density_in_1_19996_ge: "0.0880427074 \<le> density_in 1 19996"
  unfolding density_in_forms
  by (rule scaled_exp_lower [where n = 15 and hi = "1.4190845751" and xc = "1.5"
        and \<rho> = "0.000000000848" and U = "4.133334951"])
     (simp_all add: eval_nat_numeral)

lemma density_in_2_20004_le: "density_in 2 20004 \<le> 0.0879728483"
  unfolding density_in_forms
  by (rule scaled_powr_upper [where n = 15 and lnl = "0.00001846277" and xl = "0.1"
          and \<rho> = "0.00000000000000000000000000013" and lo = "0.000649441" and L = "1.0006496519"])
       (simp_all add: eval_nat_numeral)

lemma density_in_2_32000_ge: "0.0132153597 \<le> density_in 2 32000"
  unfolding density_in_forms
  by (rule scaled_powr_lower [where n = 15 and lnu = "0.05390930193" and hi = "1.8962978871"
        and xc = "1.9" and \<rho> = "0.0000000373" and U = "6.6611883028"])
     (simp_all add: eval_nat_numeral)

lemma density_in_2_31997_ge: "0.0132214604 \<le> density_in 2 31997"
  unfolding density_in_forms
  by (rule scaled_powr_lower [where n = 15 and lnu = "0.05389618136" and hi = "1.8958363618"
        and xc = "1.9" and \<rho> = "0.0000000373" and U = "6.6581147052"])
     (simp_all add: eval_nat_numeral)

lemma density_in_3_32003_le: "density_in 3 32003 \<le> 0.0132135882"
  unfolding density_in_forms
  by (rule scaled_powr_upper [where n = 15 and lnl = "0.00003673668" and xl = "0.1"
          and \<rho> = "0.00000000000000000000000000013" and lo = "0.0004851302" and L = "1.0004852478"])
       (simp_all add: eval_nat_numeral)

lemma density_in_3_47000_ge: "0.00142591766 \<le> density_in 3 47000"
  unfolding density_in_forms
  by (rule scaled_powr_lower [where n = 15 and lnu = "0.16863402315" and hi = "2.2269151692"
        and xc = "2.3" and \<rho> = "0.000000792" and U = "9.2712225423"])
     (simp_all add: eval_nat_numeral)

lemma density_in_3_46976_ge: "0.00143060127 \<le> density_in 3 46976"
  unfolding density_in_forms
  by (rule scaled_powr_lower [where n = 15 and lnu = "0.16838570117" and hi = "2.223635926"
        and xc = "2.3" and \<rho> = "0.000000792" and U = "9.2408697461"])
     (simp_all add: eval_nat_numeral)

lemma density_in_4_47024_le: "density_in 4 47024 \<le> 0.00142567289"
  unfolding density_in_forms
  by (rule scaled_exp_upper [where n = 15 and lo = "0.0030305448" and L = "1.0030351415"])
     (simp_all add: eval_nat_numeral)

lemma density_in_4_51000_ge: "0.000862934586 \<le> density_in 4 51000"
  unfolding density_in_forms
  by (rule scaled_exp_lower [where n = 15 and hi = "0.5050908325" and xc = "0.6"
        and \<rho> = "0.000000000000000365" and U = "1.6571360355"])
     (simp_all add: eval_nat_numeral)

lemma pressure_below_seam_0:
  "pressure_in 1 11000 * (1 + 1 / 20000) \<le> pressure_in 0 10996"
proof -
  have "pressure_in 1 11000 = 22632.06" unfolding pressure_in_forms by simp
  then show ?thesis using pressure_in_0_10996_ge by simp
qed

lemma pressure_above_seam_0:
  "pressure_in 1 11004 * (1 + 1 / 20000) \<le> pressure_in 0 11000"
  using pressure_in_1_11004_le pressure_in_0_11000_ge by simp

lemma pressure_below_seam_1:
  "pressure_in 2 20000 * (1 + 1 / 20000) \<le> pressure_in 1 19996"
proof -
  have "pressure_in 2 20000 = 5474.89" unfolding pressure_in_forms by simp
  then show ?thesis using pressure_in_1_19996_ge by simp
qed

lemma pressure_above_seam_1:
  "pressure_in 2 20004 * (1 + 1 / 20000) \<le> pressure_in 1 20000"
  using pressure_in_2_20004_le pressure_in_1_20000_ge by simp

lemma pressure_below_seam_2:
  "pressure_in 3 32000 * (1 + 1 / 20000) \<le> pressure_in 2 31995"
proof -
  have "pressure_in 3 32000 = 868.02" unfolding pressure_in_forms by simp
  then show ?thesis using pressure_in_2_31995_ge by simp
qed

lemma pressure_above_seam_2:
  "pressure_in 3 32005 * (1 + 1 / 20000) \<le> pressure_in 2 32000"
  using pressure_in_3_32005_le pressure_in_2_32000_ge by simp

lemma pressure_below_seam_3:
  "pressure_in 4 47000 * (1 + 1 / 20000) \<le> pressure_in 3 46993"
proof -
  have "pressure_in 4 47000 = 110.91" unfolding pressure_in_forms by simp
  then show ?thesis using pressure_in_3_46993_ge by simp
qed

lemma pressure_above_seam_3:
  "pressure_in 4 47007 * (1 + 1 / 20000) \<le> pressure_in 3 47000"
  using pressure_in_4_47007_le pressure_in_3_47000_ge by simp

lemma pressure_below_seam_4:
  "pressure_in 5 51000 * (1 + 1 / 20000) \<le> pressure_in 4 50998"
proof -
  have "pressure_in 5 51000 = 66.94" unfolding pressure_in_forms by simp
  then show ?thesis using pressure_in_4_50998_ge by simp
qed

lemma pressure_above_seam_4:
  "pressure_in 5 51002 * (1 + 1 / 20000) \<le> pressure_in 4 51000"
  using pressure_in_5_51002_le pressure_in_4_51000_ge by simp

lemma density_below_seam_0:
  "density_in 1 11000 * (1 + 1 / 20000) \<le> density_in 0 10995"
proof -
  have "density_in 1 11000 = 0.36391" unfolding density_in_forms by simp
  then show ?thesis using density_in_0_10995_ge by simp
qed

lemma density_above_seam_0:
  "density_in 1 11005 * (1 + 1 / 20000) \<le> density_in 0 11000"
  using density_in_1_11005_le density_in_0_11000_ge by simp

lemma density_below_seam_1:
  "density_in 2 20000 * (1 + 1 / 20000) \<le> density_in 1 19996"
proof -
  have "density_in 2 20000 = 0.08803" unfolding density_in_forms by simp
  then show ?thesis using density_in_1_19996_ge by simp
qed

lemma density_above_seam_1:
  "density_in 2 20004 * (1 + 1 / 20000) \<le> density_in 1 20000"
  using density_in_2_20004_le density_in_1_20000_ge by simp

lemma density_below_seam_2:
  "density_in 3 32000 * (1 + 1 / 20000) \<le> density_in 2 31997"
proof -
  have "density_in 3 32000 = 0.01322" unfolding density_in_forms by simp
  then show ?thesis using density_in_2_31997_ge by simp
qed

lemma density_above_seam_2:
  "density_in 3 32003 * (1 + 1 / 20000) \<le> density_in 2 32000"
  using density_in_3_32003_le density_in_2_32000_ge by simp

lemma density_below_seam_3:
  "density_in 4 47000 * (1 + 1 / 20000) \<le> density_in 3 46976"
proof -
  have "density_in 4 47000 = 0.00143" unfolding density_in_forms by simp
  then show ?thesis using density_in_3_46976_ge by simp
qed

lemma density_above_seam_3:
  "density_in 4 47024 * (1 + 1 / 20000) \<le> density_in 3 47000"
  using density_in_4_47024_le density_in_3_47000_ge by simp

lemma density_below_seam_4:
  "density_in 5 51000 * (1 + 1 / 20000) \<le> density_in 4 51000"
proof -
  have "density_in 5 51000 = 0.00086" unfolding density_in_forms by simp
  then show ?thesis using density_in_4_51000_ge by simp
qed

lemma density_above_seam_4:
  "density_in 5 51000 * (1 + 1 / 20000) \<le> density_in 4 51000"
  using density_below_seam_4 by simp

lemma lt5: "(i::nat) < 5 \<longleftrightarrow> i = 0 \<or> i = 1 \<or> i = 2 \<or> i = 3 \<or> i = 4"
  by arith

lemma pressure_below:
  assumes "i < 5"
  shows "pressure_in (Suc i) (breakpoints ! i) * (1 + 1 / 20000)
           \<le> pressure_in i (breakpoints ! i - pressure_window ! i)"
proof -
  consider "i = 0" | "i = 1" | "i = 2" | "i = 3" | "i = 4"
    using assms by arith
  then show ?thesis
  proof cases
    case 1
    then have i: "Suc i = 1" by simp
    show ?thesis unfolding i unfolding 1
      using pressure_below_seam_0 by (simp add: breakpoints_def pressure_window_def)
  next
    case 2
    then have i: "Suc i = 2" by simp
    show ?thesis unfolding i unfolding 2
      using pressure_below_seam_1 by (simp add: breakpoints_def pressure_window_def)
  next
    case 3
    then have i: "Suc i = 3" by simp
    show ?thesis unfolding i unfolding 3
      using pressure_below_seam_2 by (simp add: breakpoints_def pressure_window_def)
  next
    case 4
    then have i: "Suc i = 4" by simp
    show ?thesis unfolding i unfolding 4
      using pressure_below_seam_3 by (simp add: breakpoints_def pressure_window_def)
  next
    case 5
    then have i: "Suc i = 5" by simp
    show ?thesis unfolding i unfolding 5
      using pressure_below_seam_4 by (simp add: breakpoints_def pressure_window_def)
  qed
qed

lemma pressure_above:
  assumes "i < 5"
  shows "pressure_in (Suc i) (breakpoints ! i + pressure_window ! i) * (1 + 1 / 20000)
           \<le> pressure_in i (breakpoints ! i)"
proof -
  consider "i = 0" | "i = 1" | "i = 2" | "i = 3" | "i = 4"
    using assms by arith
  then show ?thesis
  proof cases
    case 1
    then have i: "Suc i = 1" by simp
    show ?thesis unfolding i unfolding 1
      using pressure_above_seam_0 by (simp add: breakpoints_def pressure_window_def)
  next
    case 2
    then have i: "Suc i = 2" by simp
    show ?thesis unfolding i unfolding 2
      using pressure_above_seam_1 by (simp add: breakpoints_def pressure_window_def)
  next
    case 3
    then have i: "Suc i = 3" by simp
    show ?thesis unfolding i unfolding 3
      using pressure_above_seam_2 by (simp add: breakpoints_def pressure_window_def)
  next
    case 4
    then have i: "Suc i = 4" by simp
    show ?thesis unfolding i unfolding 4
      using pressure_above_seam_3 by (simp add: breakpoints_def pressure_window_def)
  next
    case 5
    then have i: "Suc i = 5" by simp
    show ?thesis unfolding i unfolding 5
      using pressure_above_seam_4 by (simp add: breakpoints_def pressure_window_def)
  qed
qed

lemma density_below:
  assumes "i < 5"
  shows "density_in (Suc i) (breakpoints ! i) * (1 + 1 / 20000)
           \<le> density_in i (breakpoints ! i - density_window ! i)"
proof -
  consider "i = 0" | "i = 1" | "i = 2" | "i = 3" | "i = 4"
    using assms by arith
  then show ?thesis
  proof cases
    case 1
    then have i: "Suc i = 1" by simp
    show ?thesis unfolding i unfolding 1
      using density_below_seam_0 by (simp add: breakpoints_def density_window_def)
  next
    case 2
    then have i: "Suc i = 2" by simp
    show ?thesis unfolding i unfolding 2
      using density_below_seam_1 by (simp add: breakpoints_def density_window_def)
  next
    case 3
    then have i: "Suc i = 3" by simp
    show ?thesis unfolding i unfolding 3
      using density_below_seam_2 by (simp add: breakpoints_def density_window_def)
  next
    case 4
    then have i: "Suc i = 4" by simp
    show ?thesis unfolding i unfolding 4
      using density_below_seam_3 by (simp add: breakpoints_def density_window_def)
  next
    case 5
    then have i: "Suc i = 5" by simp
    show ?thesis unfolding i unfolding 5
      using density_below_seam_4 by (simp add: breakpoints_def density_window_def)
  qed
qed

lemma density_above:
  assumes "i < 5"
  shows "density_in (Suc i) (breakpoints ! i + density_window ! i) * (1 + 1 / 20000)
           \<le> density_in i (breakpoints ! i)"
proof -
  consider "i = 0" | "i = 1" | "i = 2" | "i = 3" | "i = 4"
    using assms by arith
  then show ?thesis
  proof cases
    case 1
    then have i: "Suc i = 1" by simp
    show ?thesis unfolding i unfolding 1
      using density_above_seam_0 by (simp add: breakpoints_def density_window_def)
  next
    case 2
    then have i: "Suc i = 2" by simp
    show ?thesis unfolding i unfolding 2
      using density_above_seam_1 by (simp add: breakpoints_def density_window_def)
  next
    case 3
    then have i: "Suc i = 3" by simp
    show ?thesis unfolding i unfolding 3
      using density_above_seam_2 by (simp add: breakpoints_def density_window_def)
  next
    case 4
    then have i: "Suc i = 4" by simp
    show ?thesis unfolding i unfolding 4
      using density_above_seam_3 by (simp add: breakpoints_def density_window_def)
  next
    case 5
    then have i: "Suc i = 5" by simp
    show ?thesis unfolding i unfolding 5
      using density_above_seam_4 by (simp add: breakpoints_def density_window_def)
  qed
qed

lemma pressure_in_base: "j < 6 \<Longrightarrow> pressure_in j (hb_table ! j) = Pb_table ! j"
  by (auto simp: lt6 pressure_in_def hb_table_def Pb_table_def Lb_table_def Tb_table_def)

lemma density_in_base: "j < 6 \<Longrightarrow> density_in j (hb_table ! j) = Db_table ! j"
  by (auto simp: lt6 density_in_def hb_table_def Db_table_def Lb_table_def Tb_table_def)

lemma pressure_far:
  assumes "Suc i < j" "j < 6"
  shows "pressure_in j (hb_table ! j) * (1 + 1 / 20000) \<le> pressure_in i (breakpoints ! i)"
proof -
  have "i < 4" using assms by simp
  then consider "i = 0" | "i = 1" | "i = 2" | "i = 3" by arith
  then show ?thesis
  proof cases
    case 1
    with assms have "j = 2 \<or> j = 3 \<or> j = 4 \<or> j = 5" by arith
    then show ?thesis unfolding pressure_in_base [OF assms(2)] 1
      using pressure_in_0_11000_ge by (auto simp: Pb_table_def breakpoints_def)
  next
    case 2
    with assms have "j = 3 \<or> j = 4 \<or> j = 5" by arith
    then show ?thesis unfolding pressure_in_base [OF assms(2)] 2
      using pressure_in_1_20000_ge by (auto simp: Pb_table_def breakpoints_def)
  next
    case 3
    with assms have "j = 4 \<or> j = 5" by arith
    then show ?thesis unfolding pressure_in_base [OF assms(2)] 3
      using pressure_in_2_32000_ge by (auto simp: Pb_table_def breakpoints_def)
  next
    case 4
    with assms have "j = 5" by arith
    then show ?thesis unfolding pressure_in_base [OF assms(2)] 4
      using pressure_in_3_47000_ge by (auto simp: Pb_table_def breakpoints_def)
  qed
qed

lemma density_far:
  assumes "Suc i < j" "j < 6"
  shows "density_in j (hb_table ! j) * (1 + 1 / 20000) \<le> density_in i (breakpoints ! i)"
proof -
  have "i < 4" using assms by simp
  then consider "i = 0" | "i = 1" | "i = 2" | "i = 3" by arith
  then show ?thesis
  proof cases
    case 1
    with assms have "j = 2 \<or> j = 3 \<or> j = 4 \<or> j = 5" by arith
    then show ?thesis unfolding density_in_base [OF assms(2)] 1
      using density_in_0_11000_ge by (auto simp: Db_table_def breakpoints_def)
  next
    case 2
    with assms have "j = 3 \<or> j = 4 \<or> j = 5" by arith
    then show ?thesis unfolding density_in_base [OF assms(2)] 2
      using density_in_1_20000_ge by (auto simp: Db_table_def breakpoints_def)
  next
    case 3
    with assms have "j = 4 \<or> j = 5" by arith
    then show ?thesis unfolding density_in_base [OF assms(2)] 3
      using density_in_2_32000_ge by (auto simp: Db_table_def breakpoints_def)
  next
    case 4
    with assms have "j = 5" by arith
    then show ?thesis unfolding density_in_base [OF assms(2)] 4
      using density_in_3_47000_ge by (auto simp: Db_table_def breakpoints_def)
  qed
qed

lemma window_nonneg:
  "i < 5 \<Longrightarrow> 0 \<le> pressure_window ! i" "i < 5 \<Longrightarrow> 0 \<le> density_window ! i"
  by (auto simp: lt5 pressure_window_def density_window_def)

text \<open>
  Claim C8, amended: for all \<open>h1 < h2\<close> in \<open>[0, 71000)\<close> at least one millimetre apart,
  \<open>get_pressure h1 > get_pressure h2\<close> whenever the pair does not straddle a layer
  boundary closely: with \<open>s\<close> the upper boundary of the layer of \<open>h1\<close> and \<open>w\<close> its
  window width, whenever \<open>h2 < s\<close> (same layer) or \<open>h1 \<le> s - w\<close> or \<open>h2 \<ge> s + w\<close>.
  The widths are 4, 4, 5, 7, 2 m at the boundaries 11000, 20000, 32000, 47000, 51000 for
  the pressure and 5, 4, 3, 24, 0 m for the density, for which the same holds. In each
  case the value falls by a relative amount of at least \<open>min (h2 - h1) 1 / 20000\<close>:
  for a pair one millimetre apart that is \<open>5e-8\<close>, far above the rounding of binary64,
  which the model leaves out and which can make closer pairs return equal values.
\<close>

theorem decreasing_outside_windows:
  assumes "0 \<le> h1" "h1 + 1 / 1000 \<le> h2" "h2 < 71000" "get_level (Num h1) = Some i"
  shows "(h2 < breakpoints ! i \<or> h1 + pressure_window ! i \<le> breakpoints ! i
            \<or> breakpoints ! i + pressure_window ! i \<le> h2
          \<longrightarrow> (\<exists>p1 p2. get_pressure (Num h1) = Inr (Num p1)
                 \<and> get_pressure (Num h2) = Inr (Num p2)
                 \<and> p2 < p1 \<and> p2 * (1 + min (h2 - h1) 1 / 20000) \<le> p1))
       \<and> (h2 < breakpoints ! i \<or> h1 + density_window ! i \<le> breakpoints ! i
            \<or> breakpoints ! i + density_window ! i \<le> h2
          \<longrightarrow> (\<exists>d1 d2. get_density (Num h1) = Inr (Num d1)
                 \<and> get_density (Num h2) = Inr (Num d2)
                 \<and> d2 < d1 \<and> d2 * (1 + min (h2 - h1) 1 / 20000) \<le> d1))"
proof -
  have lt: "h1 < h2" using assms(2) by simp
  from assms(3) have "\<exists>j. get_level (Num h2) = Some j"
    by (simp add: get_level_cases)
  then obtain j where j: "get_level (Num h2) = Some j" ..
  note lv = assms(4) j
  have P: "pressure_in j h2 * (1 + min (h2 - h1) 1 / 20000) \<le> pressure_in i h1
             \<and> pressure_in j h2 < pressure_in i h1"
    if "h2 < breakpoints ! i \<or> h1 + pressure_window ! i \<le> breakpoints ! i
          \<or> breakpoints ! i + pressure_window ! i \<le> h2"
    by (rule decreasing_generic [where F = pressure_in and w = "\<lambda>i. pressure_window ! i",
          OF pressure_in_rate pressure_in_pos window_nonneg(1) pressure_below pressure_above
            pressure_far lv assms(1) lt that])
  have D: "density_in j h2 * (1 + min (h2 - h1) 1 / 20000) \<le> density_in i h1
             \<and> density_in j h2 < density_in i h1"
    if "h2 < breakpoints ! i \<or> h1 + density_window ! i \<le> breakpoints ! i
          \<or> breakpoints ! i + density_window ! i \<le> h2"
    by (rule decreasing_generic [where F = density_in and w = "\<lambda>i. density_window ! i",
          OF density_in_rate density_in_pos window_nonneg(2) density_below density_above
            density_far lv assms(1) lt that])
  show ?thesis
    using P D get_pressure_in [OF lv(1)] get_pressure_in [OF lv(2)]
      get_density_in [OF lv(1)] get_density_in [OF lv(2)]
    by simp
qed

theorem decreasing_outside_windows_witness:
  "(0::real) \<le> 0 \<and> (0::real) + 1 / 1000 \<le> 11000 \<and> (11000::real) < 71000
   \<and> get_level (Num 0) = Some 0
   \<and> 0 + pressure_window ! 0 \<le> breakpoints ! 0
   \<and> (\<exists>p1 p2. get_pressure (Num 0) = Inr (Num p1) \<and> get_pressure (Num 11000) = Inr (Num p2)
          \<and> p2 < p1 \<and> p2 * (1 + min (11000 - 0) 1 / 20000) \<le> p1)
   \<and> 0 + density_window ! 0 \<le> breakpoints ! 0
   \<and> (\<exists>d1 d2. get_density (Num 0) = Inr (Num d1) \<and> get_density (Num 11000) = Inr (Num d2)
          \<and> d2 < d1 \<and> d2 * (1 + min (11000 - 0) 1 / 20000) \<le> d1)
   \<and> (0::real) \<le> 1000 \<and> (1000::real) + 1 / 1000 \<le> 1000.001 \<and> (1000.001::real) < 71000
   \<and> get_level (Num 1000) = Some 0 \<and> 1000.001 < breakpoints ! 0
   \<and> (\<exists>p1 p2. get_pressure (Num 1000) = Inr (Num p1)
          \<and> get_pressure (Num 1000.001) = Inr (Num p2)
          \<and> p2 < p1 \<and> p2 * (1 + min (1000.001 - 1000) 1 / 20000) \<le> p1)"
proof -
  have lv: "get_level (Num 0) = Some 0" "get_level (Num 1000) = Some 0"
    by (simp_all add: get_level_cases)
  have w: "0 + pressure_window ! 0 \<le> breakpoints ! 0" "0 + density_window ! 0 \<le> breakpoints ! 0"
    "1000.001 < breakpoints ! 0"
    by (simp_all add: pressure_window_def density_window_def breakpoints_def)
  show ?thesis
    using lv w decreasing_outside_windows [of 0 11000 0]
      decreasing_outside_windows [of 1000 "1000.001" 0]
    by simp
qed

section \<open>Layer boundaries\<close>

text \<open>The exponential factor of the two isothermal layers at their upper boundary.\<close>

lemma exp_seam_20000:
  "inverse 4.1364 \<le> exp (- (9.81 * 0.028964 * 9000 / (8.314 * 216.65)) :: real)
   \<and> exp (- (9.81 * 0.028964 * 9000 / (8.314 * 216.65)) :: real) \<le> inverse 4.1358"
  by (rule exp_bracket [where lo = "1.4197" and hi = "1.4198"]) (simp_all add: eval_nat_numeral)

lemma exp_seam_51000:
  "inverse 1.6572 \<le> exp (- (9.81 * 0.028964 * 4000 / (8.314 * 270.65)) :: real)
   \<and> exp (- (9.81 * 0.028964 * 4000 / (8.314 * 270.65)) :: real) \<le> inverse 1.6571"
  by (rule exp_bracket [where lo = "0.50509" and hi = "0.5051"]) (simp_all add: eval_nat_numeral)

text \<open>
  At each boundary the closed form of the lower layer is within 0.5 percent of the
  tabulated base value of the upper layer.
\<close>

lemma pressure_seam_11000:
  "\<bar>pressure_in 0 11000 - 22632.06\<bar> \<le> 22632.06 / 200"
proof -
  define b :: real where "b = 1 - 0.0065 * (11000 - 0) / 288.15"
  define e :: real where "e = 9.81 * 0.028964 / (8.314 * 0.0065)"
  have "75062999 / 337750000 < b powr e \<and> b powr e < 75817401 / 337750000"
    by (rule powr_bracket_small [where n = 5 and pa = 1 and qa = 4 and ra = "0.92516"
          and pb = 3 and qb = 11 and rb = "0.93119"])
       (simp_all add: b_def e_def divide_simps)
  then have bounds: "75062999 / 337750000 < b powr e" "b powr e < 75817401 / 337750000"
    by simp_all
  have eq: "pressure_in 0 11000 = 101325.00 * b powr e"
    by (simp add: pressure_in_def b_def e_def Lb_table_def hb_table_def Tb_table_def Pb_table_def)
  show ?thesis unfolding eq abs_le_iff using bounds by simp
qed

lemma density_seam_11000:
  "\<bar>density_in 0 11000 - 0.36391\<bar> \<le> 0.36391 / 200"
proof -
  define b :: real where "b = 1 - 0.0065 * (11000 - 0) / 288.15"
  define e :: real where "e = 9.81 * 0.028964 / (8.314 * 0.0065) - 1"
  have "7241809 / 24500000 < b powr e \<and> b powr e < 7314591 / 24500000"
    by (rule powr_bracket_small [where n = 4 and pa = 1 and qa = 4 and ra = "0.92516"
          and pb = 3 and qb = 11 and rb = "0.93119"])
       (simp_all add: b_def e_def divide_simps)
  then have bounds: "7241809 / 24500000 < b powr e" "b powr e < 7314591 / 24500000"
    by simp_all
  have eq: "density_in 0 11000 = 1.225 * b powr e"
    by (simp add: density_in_def b_def e_def Lb_table_def hb_table_def Tb_table_def Db_table_def)
  show ?thesis unfolding eq abs_le_iff using bounds by simp
qed

lemma pressure_seam_32000:
  "\<bar>pressure_in 2 32000 - 868.02\<bar> \<le> 868.02 / 200"
proof -
  define b :: real where "b = 1 - (- 0.001) * (32000 - 20000) / 216.65"
  define e :: real where "e = 9.81 * 0.028964 / (8.314 * (- 0.001))"
  have "233427 / 1479700 < b powr e \<and> b powr e < 235773 / 1479700"
    by (rule powr_bracket_large [where n = 34 and pa = 1 and qa = 6 and ra = "1.00902"
          and pb = 1 and qb = 4 and rb = "1.01357"])
       (simp_all add: b_def e_def divide_simps)
  then have bounds: "233427 / 1479700 < b powr e" "b powr e < 235773 / 1479700"
    by simp_all
  have eq: "pressure_in 2 32000 = 5474.89 * b powr e"
    by (simp add: pressure_in_def b_def e_def Lb_table_def hb_table_def Tb_table_def Pb_table_def)
  show ?thesis unfolding eq abs_le_iff using bounds by simp
qed

lemma density_seam_32000:
  "\<bar>density_in 2 32000 - 0.01322\<bar> \<le> 0.01322 / 200"
proof -
  define b :: real where "b = 1 - (- 0.001) * (32000 - 20000) / 216.65"
  define e :: real where "e = 9.81 * 0.028964 / (8.314 * (- 0.001)) - 1"
  have "131539 / 880300 < b powr e \<and> b powr e < 132861 / 880300"
    by (rule powr_bracket_large [where n = 35 and pa = 1 and qa = 6 and ra = "1.00902"
          and pb = 1 and qb = 4 and rb = "1.01357"])
       (simp_all add: b_def e_def divide_simps)
  then have bounds: "131539 / 880300 < b powr e" "b powr e < 132861 / 880300"
    by simp_all
  have eq: "density_in 2 32000 = 0.08803 * b powr e"
    by (simp add: density_in_def b_def e_def Lb_table_def hb_table_def Tb_table_def Db_table_def)
  show ?thesis unfolding eq abs_le_iff using bounds by simp
qed

lemma pressure_seam_47000:
  "\<bar>pressure_in 3 47000 - 110.91\<bar> \<le> 110.91 / 200"
proof -
  define b :: real where "b = 1 - (- 0.0028) * (47000 - 32000) / 228.65"
  define e :: real where "e = 9.81 * 0.028964 / (8.314 * (- 0.0028))"
  have "735703 / 5786800 < b powr e \<and> b powr e < 743097 / 5786800"
    by (rule powr_bracket_large [where n = 12 and pa = 1 and qa = 5 and ra = "1.03430"
          and pb = 2 and qb = 9 and rb = "1.03819"])
       (simp_all add: b_def e_def divide_simps)
  then have bounds: "735703 / 5786800 < b powr e" "b powr e < 743097 / 5786800"
    by simp_all
  have eq: "pressure_in 3 47000 = 868.02 * b powr e"
    by (simp add: pressure_in_def b_def e_def Lb_table_def hb_table_def Tb_table_def Pb_table_def)
  show ?thesis unfolding eq abs_le_iff using bounds by simp
qed

lemma density_seam_47000:
  "\<bar>density_in 3 47000 - 0.00143\<bar> \<le> 0.00143 / 200"
proof -
  define b :: real where "b = 1 - (- 0.0028) * (47000 - 32000) / 228.65"
  define e :: real where "e = 9.81 * 0.028964 / (8.314 * (- 0.0028)) - 1"
  have "28457 / 264400 < b powr e \<and> b powr e < 28743 / 264400"
    by (rule powr_bracket_large [where n = 13 and pa = 1 and qa = 5 and ra = "1.03430"
          and pb = 3 and qb = 14 and rb = "1.03680"])
       (simp_all add: b_def e_def divide_simps)
  then have bounds: "28457 / 264400 < b powr e" "b powr e < 28743 / 264400"
    by simp_all
  have eq: "density_in 3 47000 = 0.01322 * b powr e"
    by (simp add: density_in_def b_def e_def Lb_table_def hb_table_def Tb_table_def Db_table_def)
  show ?thesis unfolding eq abs_le_iff using bounds by simp
qed

lemma pressure_seam_20000:
  "\<bar>pressure_in 1 20000 - 5474.89\<bar> \<le> 5474.89 / 200"
proof -
  define X :: real where "X = exp (- (9.81 * 0.028964 * 9000 / (8.314 * 216.65)))"
  have eq: "pressure_in 1 20000 = 22632.06 * X"
    by (simp add: pressure_in_def X_def Lb_table_def hb_table_def Tb_table_def Pb_table_def)
  have bounds: "inverse 4.1364 \<le> X" "X \<le> inverse 4.1358"
    using exp_seam_20000 by (simp_all add: X_def)
  show ?thesis unfolding eq abs_le_iff using bounds by simp
qed

lemma density_seam_20000:
  "\<bar>density_in 1 20000 - 0.08803\<bar> \<le> 0.08803 / 200"
proof -
  define X :: real where "X = exp (- (9.81 * 0.028964 * 9000 / (8.314 * 216.65)))"
  have eq: "density_in 1 20000 = 0.36391 * X"
    by (simp add: density_in_def X_def Lb_table_def hb_table_def Tb_table_def Db_table_def)
  have bounds: "inverse 4.1364 \<le> X" "X \<le> inverse 4.1358"
    using exp_seam_20000 by (simp_all add: X_def)
  show ?thesis unfolding eq abs_le_iff using bounds by simp
qed

lemma pressure_seam_51000:
  "\<bar>pressure_in 4 51000 - 66.94\<bar> \<le> 66.94 / 200"
proof -
  define X :: real where "X = exp (- (9.81 * 0.028964 * 4000 / (8.314 * 270.65)))"
  have eq: "pressure_in 4 51000 = 110.91 * X"
    by (simp add: pressure_in_def X_def Lb_table_def hb_table_def Tb_table_def Pb_table_def)
  have bounds: "inverse 1.6572 \<le> X" "X \<le> inverse 1.6571"
    using exp_seam_51000 by (simp_all add: X_def)
  show ?thesis unfolding eq abs_le_iff using bounds by simp
qed

lemma density_seam_51000:
  "\<bar>density_in 4 51000 - 0.00086\<bar> \<le> 0.00086 / 200"
proof -
  define X :: real where "X = exp (- (9.81 * 0.028964 * 4000 / (8.314 * 270.65)))"
  have eq: "density_in 4 51000 = 0.00143 * X"
    by (simp add: density_in_def X_def Lb_table_def hb_table_def Tb_table_def Db_table_def)
  have bounds: "inverse 1.6572 \<le> X" "X \<le> inverse 1.6571"
    using exp_seam_51000 by (simp_all add: X_def)
  show ?thesis unfolding eq abs_le_iff using bounds by simp
qed

text \<open>
  At 20000 the closed form of layer 1 ends more than 2 Pa below the base pressure
  5474.89 of layer 2.
\<close>

lemma pressure_gap_20000: "pressure_in 1 20000 < 5474.89 - 2"
proof -
  define X :: real where "X = exp (- (9.81 * 0.028964 * 9000 / (8.314 * 216.65)))"
  have eq: "pressure_in 1 20000 = 22632.06 * X"
    by (simp add: pressure_in_def X_def Lb_table_def hb_table_def Tb_table_def Pb_table_def)
  have "X \<le> inverse 4.1358"
    using exp_seam_20000 by (simp add: X_def)
  then show ?thesis unfolding eq by simp
qed

text \<open>
  Claim C7, as stated: at every layer boundary the closed form of the lower layer
  equals, within floating-point tolerance, the value the evaluator returns there, for
  temperature, pressure and density alike. It fails for the pressure at 20000: the
  evaluator returns 5474.89 and the closed form of layer 1 is more than 2 Pa below it.
\<close>

theorem seam_continuity_counterexample:
  "hb_table ! 2 = 20000
   \<and> get_pressure (Num 20000) = Inr (Num 5474.89)
   \<and> pressure_in 1 20000 < 5474.89 - 2
   \<and> \<not> \<bar>pressure_in 1 20000 - 5474.89\<bar> \<le> 1 / 10 ^ 6"
proof -
  have "get_pressure (Num 20000) = Inr (Num 5474.89)"
    by (simp add: get_pressure_def get_level_cases Pb_table_def Tb_table_def Lb_table_def
          hb_table_def)
  moreover have "hb_table ! 2 = 20000" by (simp add: hb_table_def)
  moreover have "\<not> \<bar>pressure_in 1 20000 - 5474.89\<bar> \<le> 1 / 10 ^ 6"
    using pressure_gap_20000 by simp
  ultimately show ?thesis using pressure_gap_20000 by simp
qed

text \<open>
  Claim C7, amended: at every layer boundary \<open>hb\<close> in \<open>{11000, 20000, 32000, 47000,
  51000}\<close> the temperature is continuous: \<open>get_temperature hb\<close> is the value of the lower
  layer's closed form at \<open>hb\<close>. \<open>get_pressure hb\<close> and \<open>get_density hb\<close> are the
  tabulated base pressure and base density of the upper layer, and the lower layer's
  closed form at \<open>hb\<close> differs from them by at most 0.5 percent of their value.
\<close>

theorem seam_jumps:
  assumes "k < 5"
  shows "get_temperature (Num (hb_table ! Suc k))
           = Inr (Num (temperature_in k (hb_table ! Suc k)))
     \<and> get_pressure (Num (hb_table ! Suc k)) = Inr (Num (Pb_table ! Suc k))
     \<and> get_density (Num (hb_table ! Suc k)) = Inr (Num (Db_table ! Suc k))
     \<and> \<bar>pressure_in k (hb_table ! Suc k) - Pb_table ! Suc k\<bar> \<le> Pb_table ! Suc k / 200
     \<and> \<bar>density_in k (hb_table ! Suc k) - Db_table ! Suc k\<bar> \<le> Db_table ! Suc k / 200"
proof -
  note defs = get_temperature_def get_pressure_def get_density_def get_level_cases
    temperature_in_def Tb_table_def a_table_def hb_table_def Pb_table_def Lb_table_def
    Db_table_def
  consider "k = 0" | "k = 1" | "k = 2" | "k = 3" | "k = 4"
    using assms by arith
  then show ?thesis
  proof cases
    case 1
    then show ?thesis
      using pressure_seam_11000 density_seam_11000 by (simp add: defs)
  next
    case 2
    then show ?thesis
      using pressure_seam_20000 density_seam_20000 by (simp add: defs)
  next
    case 3
    then show ?thesis
      using pressure_seam_32000 density_seam_32000 by (simp add: defs)
  next
    case 4
    then show ?thesis
      using pressure_seam_47000 density_seam_47000 by (simp add: defs)
  next
    case 5
    then show ?thesis
      using pressure_seam_51000 density_seam_51000 by (simp add: defs)
  qed
qed

theorem seam_jumps_witness:
  "(0::nat) < 5
   \<and> get_temperature (Num 11000) = Inr (Num (temperature_in 0 11000))
   \<and> get_pressure (Num 11000) = Inr (Num 22632.06)
   \<and> get_density (Num 11000) = Inr (Num 0.36391)
   \<and> \<bar>pressure_in 0 11000 - 22632.06\<bar> \<le> 22632.06 / 200
   \<and> \<bar>density_in 0 11000 - 0.36391\<bar> \<le> 0.36391 / 200"
  using seam_jumps [of 0] by (simp add: hb_table_def Pb_table_def Db_table_def)

end
